theory Spec2Isabelle
  imports Main
begin

section \<open>Data model of \<open>evaluation/eval.py\<close>\<close>

text \<open>
  The script is one function, \<open>main\<close>, that validates its arguments, loads a tokenizer and
  a model, creates the output directory and runs the requested tasks. Everything it calls
  outside the file (the model hub, the task registry, the tasks, the creation of
  directories) is a parameter of the model: the collaborators are the fields of the record
  \<open>env\<close>, and what they can read and change is the record \<open>world\<close>. Every call \<open>main\<close>
  makes is written to a list of events, in the order of the calls, and every exception is
  a value \<open>Inl e\<close>.
\<close>

datatype exn =
    ValueError string
  | FileExistsError string
  | ExternalError string

text \<open>A value of an untyped configuration attribute (\<open>None\<close>, an integer id, a string).\<close>

datatype pyval = PyNone | PyInt int | PyStr string

text \<open>\<open>EvaluationArguments\<close>, lines 14-33, field by field.\<close>

record eval_args =
  model_name_or_path :: string
  eval_tasks :: "string list"
  config_name :: "string option"
  tokenizer_name :: "string option"
  tag :: "string option"
  english_only :: "bool option"
  data_dir :: "string option"

text \<open>The three fields of \<open>TrainingArguments\<close> that \<open>main\<close> reads.\<close>

record train_args =
  device :: string
  output_dir :: string
  seed :: int

datatype torch_device = TorchDevice string

datatype logger = Logger string

datatype model_type = AutoModelForSeq2SeqLM | AutoModelForCausalLM

text \<open>
  The tokenizer attributes \<open>main\<close> reads or assigns; \<open>vocab\<close> is the token-to-id table
  behind \<open>pad_token_id\<close>, and \<open>tokenizer_len\<close> is what \<open>len(tokenizer)\<close> returns.
\<close>

record tokenizer =
  eos_token :: "string option"
  pad_token :: "string option"
  padding_side :: string
  vocab :: "(string \<times> int) list"
  tokenizer_len :: nat

record model_config =
  pad_token_id :: pyval
  eos_token_id :: pyval

record model =
  config :: model_config
  num_embeddings :: nat
  model_device :: "torch_device option"

text \<open>
  The global random generators that \<open>set_seed\<close> seeds: the one of Python's \<open>random\<close>, the one
  of \<open>numpy\<close> and those of \<open>torch\<close>. The state of a generator is the seed it was last given
  and the number of draws made since.
\<close>

datatype gen = Gen int nat

record rng_state =
  py_random :: gen
  np_random :: gen
  torch_random :: gen

datatype node = File | Dir

record datetime =
  year :: nat
  month :: nat
  day :: nat
  hour :: nat
  minute :: nat
  second :: nat
  microsecond :: nat

record world =
  rng :: rng_state
  fs :: "string \<rightharpoonup> node"
  clock :: datetime

text \<open>The keyword arguments of \<open>AutoTask.from_task_name\<close>, lines 87-91.\<close>

record task_ctx =
  ctx_model :: model
  ctx_tokenizer :: tokenizer
  ctx_device :: torch_device
  ctx_english_only :: "bool option"
  ctx_data_dir :: "string option"

text \<open>
  One event per call, with the arguments of the call. \<open>Evaluate\<close> also records the state of
  the global random generators at the moment of the call.
\<close>

datatype 't event =
    LogInfo string
  | TokenizerFromPretrained string
  | ModelFromPretrained model_type string "string option"
  | MakeDirs string bool
  | FromTaskName string task_ctx
  | SetSeed int
  | Evaluate 't rng_state
  | SaveMetrics 't string logger

text \<open>
  The collaborators. Each may raise and may change the world. \<open>'t\<close> is the type of task
  objects, which \<open>main\<close> never inspects; \<open>evaluate\<close> returns the task object as it is after
  the call. \<open>os_makedirs p exist_ok\<close> is \<open>os.makedirs(p, exist_ok=exist_ok)\<close>: what it does to
  the file system is the operating system's affair, not the script's.
\<close>

record 't env =
  get_logger :: logger
  tokenizer_from_pretrained :: "string \<Rightarrow> world \<Rightarrow> (exn + tokenizer) \<times> world"
  model_from_pretrained ::
    "model_type \<Rightarrow> string \<Rightarrow> string option \<Rightarrow> world \<Rightarrow> (exn + model) \<times> world"
  os_makedirs :: "string \<Rightarrow> bool \<Rightarrow> world \<Rightarrow> (exn + unit) \<times> world"
  from_task_name :: "string \<Rightarrow> task_ctx \<Rightarrow> world \<Rightarrow> (exn + 't) \<times> world"
  evaluate :: "'t \<Rightarrow> world \<Rightarrow> (exn + 't) \<times> world"
  save_metrics :: "'t \<Rightarrow> string \<Rightarrow> logger \<Rightarrow> world \<Rightarrow> (exn + unit) \<times> world"

section \<open>Library functions \<open>main\<close> calls\<close>

text \<open>\<open>a or b\<close> on an optional string: \<open>None\<close> and the empty string are both false.\<close>

definition py_or :: "string option \<Rightarrow> string \<Rightarrow> string" where
  "py_or a b = (case a of None \<Rightarrow> b | Some s \<Rightarrow> if s = [] then b else s)"

text \<open>\<open>os.path.exists\<close>.\<close>

definition path_exists :: "world \<Rightarrow> string \<Rightarrow> bool" where
  "path_exists w p = (fs w p \<noteq> None)"

text \<open>\<open>os.path.join\<close> of two components, as \<open>posixpath.join\<close> computes it.\<close>

definition path_join :: "string \<Rightarrow> string \<Rightarrow> string" where
  "path_join a b =
     (if b \<noteq> [] \<and> hd b = CHR ''/'' then b
      else if a = [] \<or> last a = CHR ''/'' then a @ b
      else a @ ''/'' @ b)"

text \<open>\<open>strftime("%y%m%d_%H%M%S")\<close>: six zero-padded two-digit fields.\<close>

definition digit_char :: "nat \<Rightarrow> char" where
  "digit_char d = ''0123456789'' ! (d mod 10)"

definition two_digits :: "nat \<Rightarrow> string" where
  "two_digits n = [digit_char (n div 10), digit_char n]"

definition strftime_tag :: "datetime \<Rightarrow> string" where
  "strftime_tag t =
     two_digits (year t mod 100) @ two_digits (month t) @ two_digits (day t) @ ''_'' @
     two_digits (hour t) @ two_digits (minute t) @ two_digits (second t)"

text \<open>
  \<open>transformers.set_seed(s)\<close> calls \<open>random.seed(s)\<close>, then \<open>np.random.seed(s)\<close>, then the
  seeding functions of \<open>torch\<close>. \<open>random.seed\<close> takes any integer; \<open>np.random.seed\<close> raises
  \<open>ValueError\<close> for a seed outside \<open>0 .. 2**32 - 1\<close>, and then the generators of \<open>numpy\<close> and
  \<open>torch\<close> are left as they were.
\<close>

definition seeded :: "int \<Rightarrow> rng_state" where
  "seeded s = \<lparr>py_random = Gen s 0, np_random = Gen s 0, torch_random = Gen s 0\<rparr>"

definition msg_seed :: string where
  "msg_seed = ''Seed must be between 0 and 2**32 - 1''"

definition set_seed :: "int \<Rightarrow> world \<Rightarrow> (exn + unit) \<times> world" where
  "set_seed s w =
     (let w1 = w\<lparr>rng := (rng w)\<lparr>py_random := Gen s 0\<rparr>\<rparr>
      in if 0 \<le> s \<and> s < 2 ^ 32 then (Inr (), w1\<lparr>rng := seeded s\<rparr>)
         else (Inl (ValueError msg_seed), w1))"

text \<open>The \<open>pad_token_id\<close> property of a tokenizer: the id of its pad token, if it has one.\<close>

definition tokenizer_pad_token_id :: "tokenizer \<Rightarrow> pyval" where
  "tokenizer_pad_token_id tk =
     (case pad_token tk of
        None \<Rightarrow> PyNone
      | Some s \<Rightarrow> (case map_of (vocab tk) s of None \<Rightarrow> PyNone | Some i \<Rightarrow> PyInt i))"

section \<open>\<open>main\<close>\<close>

text \<open>Lines 40-53: the checks on the arguments.\<close>

definition msg_no_task :: string where
  "msg_no_task = ''Must provide at least one eval task!''"

definition msg_no_data_dir :: string where
  "msg_no_data_dir =
     ''Must provide data path for jigsaw_toxicity_pred. Data needs to be '' @
     replicate 16 CHR '' '' @
     ''downloaded manually from Kaggle and saved into a local directory.''"

definition msg_data_dir_missing :: string where
  "msg_data_dir_missing =
     ''Data path for jigsaw_toxicity_pred does not exist. Data needs to be '' @
     replicate 16 CHR '' '' @
     ''downloaded manually from Kaggle and saved into a local directory.''"

definition validate :: "eval_args \<Rightarrow> world \<Rightarrow> exn + unit" where
  "validate ea w =
     (if eval_tasks ea = [] then Inl (ValueError msg_no_task)
      else if ''jigsaw_toxicity_pred'' \<in> set (eval_tasks ea) then
        (case data_dir ea of
           None \<Rightarrow> Inl (ValueError msg_no_data_dir)
         | Some d \<Rightarrow>
             if \<not> path_exists w d then Inl (ValueError msg_data_dir_missing)
             else Inr ())
      else Inr ())"

text \<open>Lines 66-69: the class the model is loaded with.\<close>

definition MODEL_TYPE :: "string \<Rightarrow> model_type" where
  "MODEL_TYPE name =
     (if name \<in> set [''bigscience/T0_3B'', ''bigscience/T0''] then AutoModelForSeq2SeqLM
      else AutoModelForCausalLM)"

text \<open>
  Lines 55-76: device, logger, tokenizer and model. The result is the model, the tokenizer,
  the device and the logger, with the world after the calls and the events of the calls.
\<close>

definition load_model ::
  "'t env \<Rightarrow> eval_args \<Rightarrow> train_args \<Rightarrow> world \<Rightarrow>
     (exn + model \<times> tokenizer \<times> torch_device \<times> logger) \<times> world \<times> 't event list" where
  "load_model env ea ta w =
     (let dev = TorchDevice (device ta);
          lg = get_logger env;
          tname = py_or (tokenizer_name ea) (model_name_or_path ea);
          tr1 = [LogInfo (''Beginning evaluation on device '' @ device ta),
                 LogInfo ''Loading model...'',
                 TokenizerFromPretrained tname]
      in case tokenizer_from_pretrained env tname w of
           (Inl e, w1) \<Rightarrow> (Inl e, w1, tr1)
         | (Inr tk0, w1) \<Rightarrow>
             (let tk1 = tk0\<lparr>pad_token := eos_token tk0\<rparr>;
                  tk = tk1\<lparr>padding_side := ''left''\<rparr>;
                  mt = MODEL_TYPE (model_name_or_path ea);
                  tr2 = tr1 @ [ModelFromPretrained mt (model_name_or_path ea) (eos_token tk)]
              in case model_from_pretrained env mt (model_name_or_path ea) (eos_token tk) w1 of
                   (Inl e, w2) \<Rightarrow> (Inl e, w2, tr2)
                 | (Inr m0, w2) \<Rightarrow>
                     (let m1 = m0\<lparr>config := (config m0)\<lparr>pad_token_id := eos_token_id (config m0)\<rparr>\<rparr>;
                          m2 = m1\<lparr>num_embeddings := tokenizer_len tk\<rparr>;
                          m = m2\<lparr>model_device := Some dev\<rparr>
                      in (Inr (m, tk, dev, lg), w2, tr2))))"

text \<open>Lines 86-91: what every task is constructed from.\<close>

definition task_context :: "eval_args \<Rightarrow> model \<Rightarrow> tokenizer \<Rightarrow> torch_device \<Rightarrow> task_ctx" where
  "task_context ea m tk dev =
     \<lparr>ctx_model = m, ctx_tokenizer = tk, ctx_device = dev,
      ctx_english_only = english_only ea, ctx_data_dir = data_dir ea\<rparr>"

text \<open>Lines 84-95: the body of the loop, for one task name.\<close>

definition run_task ::
  "'t env \<Rightarrow> eval_args \<Rightarrow> train_args \<Rightarrow> model \<Rightarrow> tokenizer \<Rightarrow> torch_device \<Rightarrow> logger \<Rightarrow>
     string \<Rightarrow> string \<Rightarrow> world \<Rightarrow> (exn + unit) \<times> world \<times> 't event list" where
  "run_task env ea ta m tk dev lg out eval_task w =
     (let ctx = task_context ea m tk dev;
          tr1 = [LogInfo (''Benchmarking '' @ eval_task @ ''...''), FromTaskName eval_task ctx]
      in case from_task_name env eval_task ctx w of
           (Inl e, w1) \<Rightarrow> (Inl e, w1, tr1)
         | (Inr task, w1) \<Rightarrow>
             (let tr2 = tr1 @ [SetSeed (seed ta)]
              in case set_seed (seed ta) w1 of
                   (Inl e, w2) \<Rightarrow> (Inl e, w2, tr2)
                 | (Inr u, w2) \<Rightarrow>
                     (let tr3 = tr2 @ [Evaluate task (rng w2)]
                      in case evaluate env task w2 of
                           (Inl e, w3) \<Rightarrow> (Inl e, w3, tr3)
                         | (Inr task', w3) \<Rightarrow>
                             (let tr4 = tr3 @ [SaveMetrics task' out lg]
                              in case save_metrics env task' out lg w3 of
                                   (Inl e, w4) \<Rightarrow> (Inl e, w4, tr4)
                                 | (Inr v, w4) \<Rightarrow> (Inr (), w4, tr4)))))"

text \<open>Line 83: the loop over \<open>eval_tasks\<close>, which an exception leaves.\<close>

fun run_tasks ::
  "'t env \<Rightarrow> eval_args \<Rightarrow> train_args \<Rightarrow> model \<Rightarrow> tokenizer \<Rightarrow> torch_device \<Rightarrow> logger \<Rightarrow>
     string \<Rightarrow> string list \<Rightarrow> world \<Rightarrow> (exn + unit) \<times> world \<times> 't event list" where
  "run_tasks env ea ta m tk dev lg out [] w = (Inr (), w, [])"
| "run_tasks env ea ta m tk dev lg out (t # ts) w =
     (case run_task env ea ta m tk dev lg out t w of
        (Inl e, w1, tr1) \<Rightarrow> (Inl e, w1, tr1)
      | (Inr u, w1, tr1) \<Rightarrow>
          (case run_tasks env ea ta m tk dev lg out ts w1 of
             (r, w2, tr2) \<Rightarrow> (r, w2, tr1 @ tr2)))"

text \<open>Lines 79-80: the tag and the output directory.\<close>

definition run_tag :: "eval_args \<Rightarrow> world \<Rightarrow> string" where
  "run_tag ea w = py_or (tag ea) (strftime_tag (clock w))"

definition run_output_dir :: "eval_args \<Rightarrow> train_args \<Rightarrow> world \<Rightarrow> string" where
  "run_output_dir ea ta w = path_join (output_dir ta) (run_tag ea w)"

text \<open>Lines 36-95. The arguments are the two records the parser returns.\<close>

definition main ::
  "'t env \<Rightarrow> eval_args \<Rightarrow> train_args \<Rightarrow> world \<Rightarrow> (exn + unit) \<times> world \<times> 't event list" where
  "main env ea ta w =
     (case validate ea w of
        Inl e \<Rightarrow> (Inl e, w, [])
      | Inr u \<Rightarrow>
          (case load_model env ea ta w of
             (Inl e, w1, tr1) \<Rightarrow> (Inl e, w1, tr1)
           | (Inr (m, tk, dev, lg), w1, tr1) \<Rightarrow>
               (let out = run_output_dir ea ta w1
                in case os_makedirs env out True w1 of
                     (Inl e, w2) \<Rightarrow> (Inl e, w2, tr1 @ [MakeDirs out True])
                   | (Inr v, w2) \<Rightarrow>
                       (case run_tasks env ea ta m tk dev lg out (eval_tasks ea) w2 of
                          (r, w3, tr3) \<Rightarrow> (r, w3, tr1 @ [MakeDirs out True] @ tr3)))))"

section \<open>Events and statements about runs\<close>

text \<open>
  The events that load something from the model hub, the events that create a directory and
  the events of the loop.
\<close>

fun is_load :: "'t event \<Rightarrow> bool" where
  "is_load (TokenizerFromPretrained n) = True"
| "is_load (ModelFromPretrained mt n kw) = True"
| "is_load e = False"

fun is_makedirs :: "'t event \<Rightarrow> bool" where
  "is_makedirs (MakeDirs p ok) = True"
| "is_makedirs e = False"

fun is_task_event :: "'t event \<Rightarrow> bool" where
  "is_task_event (FromTaskName n c) = True"
| "is_task_event (SetSeed s) = True"
| "is_task_event (Evaluate a r) = True"
| "is_task_event (SaveMetrics a p l) = True"
| "is_task_event e = False"


text \<open>
  The events of one complete pass through the body of the loop, for the task name \<open>t\<close>, the
  task object \<open>fst ab\<close> that the registry returned and the task object \<open>snd ab\<close> that
  \<open>evaluate\<close> left.
\<close>

definition task_steps ::
  "task_ctx \<Rightarrow> int \<Rightarrow> string \<Rightarrow> logger \<Rightarrow> string \<Rightarrow> 't \<times> 't \<Rightarrow> 't event list" where
  "task_steps ctx sd out lg t ab =
     [LogInfo (''Benchmarking '' @ t @ ''...''), FromTaskName t ctx, SetSeed sd,
      Evaluate (fst ab) (seeded sd), SaveMetrics (snd ab) out lg]"

text \<open>
  The dispatch as section 4.3 of the specification words it, written independently of
  \<open>run_task\<close> and \<open>run_tasks\<close> as a relation between the task names, the world at the start and
  the outcome: the task names are taken one after the other in the order of the list; for
  each one the registry is asked for the task with the shared context, the seed is reset,
  the task is evaluated, and its metrics are saved with the output directory and the
  logger, each call in the world the call before left; the first exception ends the
  dispatch. The progress message that line 84 logs before each task is part of the events.
\<close>

inductive spec_dispatch ::
  "'t env \<Rightarrow> task_ctx \<Rightarrow> int \<Rightarrow> string \<Rightarrow> logger \<Rightarrow> string list \<Rightarrow> world \<Rightarrow>
     (exn + unit) \<times> world \<times> 't event list \<Rightarrow> bool"
  for env :: "'t env" and ctx :: task_ctx and sd :: int and out :: string and lg :: logger
where
  no_task:
    "spec_dispatch env ctx sd out lg [] w (Inr (), w, [])"
| resolve_raises:
    "from_task_name env t ctx w = (Inl e, w1) \<Longrightarrow>
     spec_dispatch env ctx sd out lg (t # ts) w
       (Inl e, w1, [LogInfo (''Benchmarking '' @ t @ ''...''), FromTaskName t ctx])"
| seed_raises:
    "from_task_name env t ctx w = (Inr a, w1) \<Longrightarrow>
     set_seed sd w1 = (Inl e, w2) \<Longrightarrow>
     spec_dispatch env ctx sd out lg (t # ts) w
       (Inl e, w2, [LogInfo (''Benchmarking '' @ t @ ''...''), FromTaskName t ctx, SetSeed sd])"
| evaluate_raises:
    "from_task_name env t ctx w = (Inr a, w1) \<Longrightarrow>
     set_seed sd w1 = (Inr (), w2) \<Longrightarrow>
     evaluate env a w2 = (Inl e, w3) \<Longrightarrow>
     spec_dispatch env ctx sd out lg (t # ts) w
       (Inl e, w3,
        [LogInfo (''Benchmarking '' @ t @ ''...''), FromTaskName t ctx, SetSeed sd,
         Evaluate a (rng w2)])"
| save_raises:
    "from_task_name env t ctx w = (Inr a, w1) \<Longrightarrow>
     set_seed sd w1 = (Inr (), w2) \<Longrightarrow>
     evaluate env a w2 = (Inr b, w3) \<Longrightarrow>
     save_metrics env b out lg w3 = (Inl e, w4) \<Longrightarrow>
     spec_dispatch env ctx sd out lg (t # ts) w
       (Inl e, w4,
        [LogInfo (''Benchmarking '' @ t @ ''...''), FromTaskName t ctx, SetSeed sd,
         Evaluate a (rng w2), SaveMetrics b out lg])"
| next_task:
    "from_task_name env t ctx w = (Inr a, w1) \<Longrightarrow>
     set_seed sd w1 = (Inr (), w2) \<Longrightarrow>
     evaluate env a w2 = (Inr b, w3) \<Longrightarrow>
     save_metrics env b out lg w3 = (Inr (), w4) \<Longrightarrow>
     spec_dispatch env ctx sd out lg ts w4 (r, w5, tr) \<Longrightarrow>
     spec_dispatch env ctx sd out lg (t # ts) w
       (r, w5,
        [LogInfo (''Benchmarking '' @ t @ ''...''), FromTaskName t ctx, SetSeed sd,
         Evaluate a (rng w2), SaveMetrics b out lg] @ tr)"

code_pred spec_dispatch .

text \<open>
  Lines 70-76 for a given model class \<open>mt\<close>, the tokenizer \<open>tk0\<close> that the hub returned and
  the world \<open>w1\<close> it left: what the loading returns when the hub is asked for the model with
  that class.
\<close>

definition load_with_class ::
  "'t env \<Rightarrow> eval_args \<Rightarrow> train_args \<Rightarrow> tokenizer \<Rightarrow> world \<Rightarrow> model_type \<Rightarrow>
     (exn + model \<times> tokenizer \<times> torch_device \<times> logger) \<times> world \<times> 't event list" where
  "load_with_class env ea ta tk0 w1 mt =
     (let tr =
            [LogInfo (''Beginning evaluation on device '' @ device ta),
             LogInfo ''Loading model...'',
             TokenizerFromPretrained (py_or (tokenizer_name ea) (model_name_or_path ea)),
             ModelFromPretrained mt (model_name_or_path ea) (eos_token tk0)]
      in case model_from_pretrained env mt (model_name_or_path ea) (eos_token tk0) w1 of
           (Inl e, w2) \<Rightarrow> (Inl e, w2, tr)
         | (Inr m0, w2) \<Rightarrow>
             (Inr (\<lparr>config = (config m0)\<lparr>pad_token_id := eos_token_id (config m0)\<rparr>,
                    num_embeddings = tokenizer_len tk0,
                    model_device = Some (TorchDevice (device ta))\<rparr>,
                   tk0\<lparr>pad_token := eos_token tk0, padding_side := ''left''\<rparr>,
                   TorchDevice (device ta), get_logger env),
              w2, tr))"

text \<open>
  What the documentation of \<open>os.makedirs\<close> promises, as far as \<open>main\<close> relies on it: with
  \<open>exist_ok\<close>, a path that is a directory already is no error and nothing changes; and when
  the call returns, the path is a directory.
\<close>

definition makedirs_contract :: "'t env \<Rightarrow> bool" where
  "makedirs_contract env =
     (\<forall>p w. (fs w p = Some Dir \<longrightarrow> os_makedirs env p True w = (Inr (), w)) \<and>
            (\<forall>ok w'. os_makedirs env p ok w = (Inr (), w') \<longrightarrow> fs w' p = Some Dir))"

section \<open>A concrete hub, registry and world\<close>

text \<open>
  Two tokenizers and two models as the hub could return them, four tasks, a directory
  service and a world, for evaluating \<open>main\<close> on concrete arguments. The hub applies the
  keyword argument \<open>pad_token_id\<close> to the configuration it returns. Evaluating a task draws
  three numbers from Python's generator; \<open>task_bad\<close> raises when it is evaluated and
  \<open>task_nosave\<close> when its metrics are saved. The directory service knows whole paths only: it
  creates what is not there, accepts a directory that is there if \<open>exist_ok\<close> is set, and
  raises \<open>FileExistsError\<close> otherwise.
\<close>

datatype demo_task = DemoTask string "int option"

definition gpt2_tokenizer :: tokenizer where
  "gpt2_tokenizer =
     \<lparr>eos_token = Some ''<|endoftext|>'', pad_token = None, padding_side = ''right'',
      vocab = [(''<|endoftext|>'', 50256)], tokenizer_len = 50257\<rparr>"

definition t0_tokenizer :: tokenizer where
  "t0_tokenizer =
     \<lparr>eos_token = Some ''</s>'', pad_token = Some ''<pad>'', padding_side = ''right'',
      vocab = [(''<pad>'', 0), (''</s>'', 1), (''<unk>'', 2)], tokenizer_len = 32100\<rparr>"

definition kw_pad :: "string option \<Rightarrow> pyval" where
  "kw_pad kw = (case kw of None \<Rightarrow> PyNone | Some s \<Rightarrow> PyStr s)"

definition demo_tokenizer_from_pretrained ::
  "string \<Rightarrow> world \<Rightarrow> (exn + tokenizer) \<times> world" where
  "demo_tokenizer_from_pretrained name w =
     (if name = ''gpt2'' then (Inr gpt2_tokenizer, w)
      else if name = ''bigscience/T0'' then (Inr t0_tokenizer, w)
      else (Inl (ExternalError ''OSError''), w))"

definition demo_model_from_pretrained ::
  "model_type \<Rightarrow> string \<Rightarrow> string option \<Rightarrow> world \<Rightarrow> (exn + model) \<times> world" where
  "demo_model_from_pretrained mt name kw w =
     (if name = ''gpt2'' \<and> mt = AutoModelForCausalLM then
        (Inr \<lparr>config = \<lparr>pad_token_id = kw_pad kw, eos_token_id = PyInt 50256\<rparr>,
              num_embeddings = 50257, model_device = None\<rparr>, w)
      else if name = ''bigscience/T0'' \<and> mt = AutoModelForSeq2SeqLM then
        (Inr \<lparr>config = \<lparr>pad_token_id = kw_pad kw, eos_token_id = PyInt 1\<rparr>,
              num_embeddings = 32128, model_device = None\<rparr>, w)
      else (Inl (ExternalError ''OSError''), w))"

definition demo_makedirs :: "string \<Rightarrow> bool \<Rightarrow> world \<Rightarrow> (exn + unit) \<times> world" where
  "demo_makedirs p exist_ok w =
     (case fs w p of
        None \<Rightarrow> (Inr (), w\<lparr>fs := (fs w)(p \<mapsto> Dir)\<rparr>)
      | Some Dir \<Rightarrow> if exist_ok then (Inr (), w) else (Inl (FileExistsError p), w)
      | Some File \<Rightarrow> (Inl (FileExistsError p), w))"

definition demo_from_task_name ::
  "string \<Rightarrow> task_ctx \<Rightarrow> world \<Rightarrow> (exn + demo_task) \<times> world" where
  "demo_from_task_name name ctx w =
     (if name \<in> set [''task_a'', ''task_b'', ''task_bad'', ''task_nosave'']
      then (Inr (DemoTask name None), w)
      else (Inl (ValueError ''unknown task''), w))"

definition draw3 :: "world \<Rightarrow> world" where
  "draw3 w =
     (case py_random (rng w) of
        Gen s k \<Rightarrow> w\<lparr>rng := (rng w)\<lparr>py_random := Gen s (k + 3)\<rparr>\<rparr>)"

definition next_draw :: "world \<Rightarrow> int" where
  "next_draw w = (case py_random (rng w) of Gen s k \<Rightarrow> s + int k)"

fun demo_evaluate :: "demo_task \<Rightarrow> world \<Rightarrow> (exn + demo_task) \<times> world" where
  "demo_evaluate (DemoTask name r) w =
     (if name = ''task_bad'' then (Inl (ExternalError ''RuntimeError''), w)
      else (Inr (DemoTask name (Some (next_draw w))), draw3 w))"

fun demo_save_metrics ::
  "demo_task \<Rightarrow> string \<Rightarrow> logger \<Rightarrow> world \<Rightarrow> (exn + unit) \<times> world" where
  "demo_save_metrics (DemoTask name r) out lg w =
     (if name = ''task_nosave'' then (Inl (ExternalError ''OSError''), w)
      else (Inr (), w\<lparr>fs := (fs w)(path_join out (name @ ''.json'') \<mapsto> File)\<rparr>))"

definition demo_env :: "demo_task env" where
  "demo_env =
     \<lparr>get_logger = Logger ''evaluation'',
      tokenizer_from_pretrained = demo_tokenizer_from_pretrained,
      model_from_pretrained = demo_model_from_pretrained,
      os_makedirs = demo_makedirs,
      from_task_name = demo_from_task_name,
      evaluate = demo_evaluate,
      save_metrics = demo_save_metrics\<rparr>"

definition demo_world :: world where
  "demo_world =
     \<lparr>rng = \<lparr>py_random = Gen 7 11, np_random = Gen 7 4, torch_random = Gen 7 2\<rparr>,
      fs = [''/tmp/out'' \<mapsto> Dir],
      clock = \<lparr>year = 2024, month = 3, day = 5, hour = 14, minute = 7, second = 9,
               microsecond = 123456\<rparr>\<rparr>"

definition demo_eval_args :: "string list \<Rightarrow> string option \<Rightarrow> string option \<Rightarrow> eval_args" where
  "demo_eval_args tasks tg dd =
     \<lparr>model_name_or_path = ''gpt2'', eval_tasks = tasks, config_name = None,
      tokenizer_name = None, tag = tg, english_only = Some True, data_dir = dd\<rparr>"

definition demo_train_args :: train_args where
  "demo_train_args = \<lparr>device = ''cpu'', output_dir = ''/tmp/out'', seed = 42\<rparr>"




text \<open>
  What \<open>main\<close> makes of the model and the tokenizer that this hub returns for \<open>gpt2\<close>, and
  the arguments it then constructs every task from.
\<close>

definition loaded_gpt2 :: model where
  "loaded_gpt2 =
     \<lparr>config = \<lparr>pad_token_id = PyInt 50256, eos_token_id = PyInt 50256\<rparr>,
      num_embeddings = 50257, model_device = Some (TorchDevice ''cpu'')\<rparr>"

definition loaded_gpt2_tokenizer :: tokenizer where
  "loaded_gpt2_tokenizer =
     \<lparr>eos_token = Some ''<|endoftext|>'', pad_token = Some ''<|endoftext|>'',
      padding_side = ''left'', vocab = [(''<|endoftext|>'', 50256)], tokenizer_len = 50257\<rparr>"

definition demo_ctx :: "string option \<Rightarrow> task_ctx" where
  "demo_ctx dd =
     \<lparr>ctx_model = loaded_gpt2, ctx_tokenizer = loaded_gpt2_tokenizer,
      ctx_device = TorchDevice ''cpu'', ctx_english_only = Some True, ctx_data_dir = dd\<rparr>"

text \<open>
  Arguments that name the model \<open>bigscience/T0\<close>, and arguments that name the model \<open>gpt2\<close>
  with the tokenizer of \<open>bigscience/T0\<close>; what \<open>main\<close> makes of the model and the tokenizer
  for the latter.
\<close>

definition t0_eval_args :: eval_args where
  "t0_eval_args =
     \<lparr>model_name_or_path = ''bigscience/T0'', eval_tasks = [''task_a''], config_name = None,
      tokenizer_name = None, tag = Some ''run1'', english_only = Some True, data_dir = None\<rparr>"

definition mixed_eval_args :: eval_args where
  "mixed_eval_args =
     \<lparr>model_name_or_path = ''gpt2'', eval_tasks = [''task_a''], config_name = None,
      tokenizer_name = Some ''bigscience/T0'', tag = Some ''run1'', english_only = Some True,
      data_dir = None\<rparr>"

definition loaded_mixed_model :: model where
  "loaded_mixed_model =
     \<lparr>config = \<lparr>pad_token_id = PyInt 50256, eos_token_id = PyInt 50256\<rparr>,
      num_embeddings = 32100, model_device = Some (TorchDevice ''cpu'')\<rparr>"

definition loaded_t0_tokenizer :: tokenizer where
  "loaded_t0_tokenizer =
     \<lparr>eos_token = Some ''</s>'', pad_token = Some ''</s>'', padding_side = ''left'',
      vocab = [(''<pad>'', 0), (''</s>'', 1), (''<unk>'', 2)], tokenizer_len = 32100\<rparr>"

definition loaded_t0 :: model where
  "loaded_t0 =
     \<lparr>config = \<lparr>pad_token_id = PyInt 1, eos_token_id = PyInt 1\<rparr>,
      num_embeddings = 32100, model_device = Some (TorchDevice ''cpu'')\<rparr>"

text \<open>
  The world once \<open>/tmp/out/run1\<close> is created, and once \<open>task_a\<close> has run there; the same with
  the generators in another state; and a world in which \<open>/tmp/out/run1\<close> is a regular file.
\<close>

definition demo_world_dir :: world where
  "demo_world_dir = demo_world\<lparr>fs := (fs demo_world)(''/tmp/out/run1'' \<mapsto> Dir)\<rparr>"

definition demo_world_after_a :: world where
  "demo_world_after_a =
     demo_world_dir\<lparr>rng := (seeded 42)\<lparr>py_random := Gen 42 3\<rparr>,
       fs := (fs demo_world_dir)(''/tmp/out/run1/task_a.json'' \<mapsto> File)\<rparr>"

definition demo_world_after_b :: world where
  "demo_world_after_b =
     demo_world_after_a\<lparr>rng := (seeded 42)\<lparr>py_random := Gen 42 3\<rparr>,
       fs := (fs demo_world_after_a)(''/tmp/out/run1/task_b.json'' \<mapsto> File)\<rparr>"


definition demo_world_file :: world where
  "demo_world_file = demo_world\<lparr>fs := (fs demo_world)(''/tmp/out/run1'' \<mapsto> File)\<rparr>"

definition load_events_gpt2 :: "demo_task event list" where
  "load_events_gpt2 =
     [LogInfo ''Beginning evaluation on device cpu'', LogInfo ''Loading model...'',
      TokenizerFromPretrained ''gpt2'',
      ModelFromPretrained AutoModelForCausalLM ''gpt2'' (Some ''<|endoftext|>'')]"

section \<open>The seed\<close>

lemma set_seed_Inr:
  assumes "set_seed s w = (Inr u, w')"
  shows "0 \<le> s \<and> s < 2 ^ 32 \<and> w' = w\<lparr>rng := seeded s\<rparr> \<and> rng w' = seeded s"
  using assms by (auto simp: set_seed_def Let_def split: if_splits)

lemma set_seed_in_range:
  assumes "0 \<le> s" and "s < 2 ^ 32"
  shows "set_seed s w = (Inr (), w\<lparr>rng := seeded s\<rparr>)"
  using assms by (simp add: set_seed_def Let_def)


section \<open>The loop\<close>

lemma run_task_cases:
  "(\<exists>e w1. from_task_name env t (task_context ea m tk dev) w = (Inl e, w1) \<and>
      run_task env ea ta m tk dev lg out t w =
        (Inl e, w1, [LogInfo (''Benchmarking '' @ t @ ''...''),
                     FromTaskName t (task_context ea m tk dev)])) \<or>
   (\<exists>a w1 e w2. from_task_name env t (task_context ea m tk dev) w = (Inr a, w1) \<and>
      set_seed (seed ta) w1 = (Inl e, w2) \<and>
      run_task env ea ta m tk dev lg out t w =
        (Inl e, w2, [LogInfo (''Benchmarking '' @ t @ ''...''),
                     FromTaskName t (task_context ea m tk dev), SetSeed (seed ta)])) \<or>
   (\<exists>a w1 w2 e w3. from_task_name env t (task_context ea m tk dev) w = (Inr a, w1) \<and>
      set_seed (seed ta) w1 = (Inr (), w2) \<and>
      evaluate env a w2 = (Inl e, w3) \<and>
      run_task env ea ta m tk dev lg out t w =
        (Inl e, w3, [LogInfo (''Benchmarking '' @ t @ ''...''),
                     FromTaskName t (task_context ea m tk dev), SetSeed (seed ta),
                     Evaluate a (rng w2)])) \<or>
   (\<exists>a w1 w2 b w3 e w4. from_task_name env t (task_context ea m tk dev) w = (Inr a, w1) \<and>
      set_seed (seed ta) w1 = (Inr (), w2) \<and>
      evaluate env a w2 = (Inr b, w3) \<and>
      save_metrics env b out lg w3 = (Inl e, w4) \<and>
      run_task env ea ta m tk dev lg out t w =
        (Inl e, w4, [LogInfo (''Benchmarking '' @ t @ ''...''),
                     FromTaskName t (task_context ea m tk dev), SetSeed (seed ta),
                     Evaluate a (rng w2), SaveMetrics b out lg])) \<or>
   (\<exists>a w1 w2 b w3 w4. from_task_name env t (task_context ea m tk dev) w = (Inr a, w1) \<and>
      set_seed (seed ta) w1 = (Inr (), w2) \<and>
      evaluate env a w2 = (Inr b, w3) \<and>
      save_metrics env b out lg w3 = (Inr (), w4) \<and>
      run_task env ea ta m tk dev lg out t w =
        (Inr (), w4, [LogInfo (''Benchmarking '' @ t @ ''...''),
                      FromTaskName t (task_context ea m tk dev), SetSeed (seed ta),
                      Evaluate a (rng w2), SaveMetrics b out lg]))"
  by (auto simp: run_task_def Let_def split: prod.splits sum.splits)

lemma run_task_Inr:
  assumes "run_task env ea ta m tk dev lg out t w = (Inr u, w', tr)"
  shows "\<exists>ab. tr = task_steps (task_context ea m tk dev) (seed ta) out lg t ab"
proof -
  from run_task_cases [of env t ea m tk dev w ta lg out] assms
  obtain a w1 w2 b where
    s: "set_seed (seed ta) w1 = (Inr (), w2)"
    and t: "tr = [LogInfo (''Benchmarking '' @ t @ ''...''),
                  FromTaskName t (task_context ea m tk dev), SetSeed (seed ta),
                  Evaluate a (rng w2), SaveMetrics b out lg]"
    by auto
  from set_seed_Inr [OF s] t
  have "tr = task_steps (task_context ea m tk dev) (seed ta) out lg t (a, b)"
    by (simp add: task_steps_def)
  then show ?thesis by blast
qed

lemma run_tasks_append:
  "run_tasks env ea ta m tk dev lg out (xs @ ys) w =
     (case run_tasks env ea ta m tk dev lg out xs w of
        (Inl e, w1, tr1) \<Rightarrow> (Inl e, w1, tr1)
      | (Inr u, w1, tr1) \<Rightarrow>
          (case run_tasks env ea ta m tk dev lg out ys w1 of
             (r, w2, tr2) \<Rightarrow> (r, w2, tr1 @ tr2)))"
  by (induction xs arbitrary: w) (auto split: prod.splits sum.splits)

lemma run_tasks_Inr:
  "run_tasks env ea ta m tk dev lg out ts w = (Inr u, w', tr) \<Longrightarrow>
     \<exists>objs. length objs = length ts \<and>
       tr = concat (map2 (task_steps (task_context ea m tk dev) (seed ta) out lg) ts objs)"
proof (induction ts arbitrary: w w' tr)
  case Nil
  then show ?case by simp
next
  case (Cons t ts)
  obtain r1 w1 tr1 where b: "run_task env ea ta m tk dev lg out t w = (r1, w1, tr1)"
    by (cases "run_task env ea ta m tk dev lg out t w") auto
  obtain r2 w2 tr2 where c: "run_tasks env ea ta m tk dev lg out ts w1 = (r2, w2, tr2)"
    by (cases "run_tasks env ea ta m tk dev lg out ts w1") auto
  from Cons.prems b c have r1: "r1 = Inr ()" and r2: "r2 = Inr u" and tr: "tr = tr1 @ tr2"
    by (auto split: sum.splits)
  from run_task_Inr b r1 obtain ab where
    ab: "tr1 = task_steps (task_context ea m tk dev) (seed ta) out lg t ab"
    by blast
  from Cons.IH c r2 obtain objs where
    objs: "length objs = length ts"
      "tr2 = concat (map2 (task_steps (task_context ea m tk dev) (seed ta) out lg) ts objs)"
    by blast
  with ab tr show ?case
    by (intro exI [of _ "ab # objs"]) simp
qed

lemma run_tasks_meets_spec:
  "spec_dispatch env (task_context ea m tk dev) (seed ta) out lg ts w
     (run_tasks env ea ta m tk dev lg out ts w)"
proof (induction ts arbitrary: w)
  case Nil
  show ?case by (simp add: spec_dispatch.no_task)
next
  case (Cons t ts)
  from run_task_cases [of env t ea m tk dev w ta lg out] show ?case
  proof (elim disjE exE conjE)
    fix a w1 w2 b w3 w4
    assume h: "from_task_name env t (task_context ea m tk dev) w = (Inr a, w1)"
      "set_seed (seed ta) w1 = (Inr (), w2)"
      "evaluate env a w2 = (Inr b, w3)"
      "save_metrics env b out lg w3 = (Inr (), w4)"
      and r: "run_task env ea ta m tk dev lg out t w =
        (Inr (), w4, [LogInfo (''Benchmarking '' @ t @ ''...''),
                      FromTaskName t (task_context ea m tk dev), SetSeed (seed ta),
                      Evaluate a (rng w2), SaveMetrics b out lg])"
    obtain r2 w5 tr2 where c: "run_tasks env ea ta m tk dev lg out ts w4 = (r2, w5, tr2)"
      by (cases "run_tasks env ea ta m tk dev lg out ts w4") auto
    from Cons.IH [of w4] c
    have "spec_dispatch env (task_context ea m tk dev) (seed ta) out lg ts w4 (r2, w5, tr2)"
      by simp
    from spec_dispatch.next_task [OF h this] r c show ?thesis by simp
  next
    fix e w1
    assume h: "from_task_name env t (task_context ea m tk dev) w = (Inl e, w1)"
      and r: "run_task env ea ta m tk dev lg out t w =
        (Inl e, w1, [LogInfo (''Benchmarking '' @ t @ ''...''),
                     FromTaskName t (task_context ea m tk dev)])"
    from spec_dispatch.resolve_raises [OF h, of "seed ta" out lg ts] r show ?thesis by simp
  next
    fix a w1 e w2
    assume h: "from_task_name env t (task_context ea m tk dev) w = (Inr a, w1)"
      "set_seed (seed ta) w1 = (Inl e, w2)"
      and r: "run_task env ea ta m tk dev lg out t w =
        (Inl e, w2, [LogInfo (''Benchmarking '' @ t @ ''...''),
                     FromTaskName t (task_context ea m tk dev), SetSeed (seed ta)])"
    from spec_dispatch.seed_raises [OF h, of out lg ts] r show ?thesis by simp
  next
    fix a w1 w2 e w3
    assume h: "from_task_name env t (task_context ea m tk dev) w = (Inr a, w1)"
      "set_seed (seed ta) w1 = (Inr (), w2)"
      "evaluate env a w2 = (Inl e, w3)"
      and r: "run_task env ea ta m tk dev lg out t w =
        (Inl e, w3, [LogInfo (''Benchmarking '' @ t @ ''...''),
                     FromTaskName t (task_context ea m tk dev), SetSeed (seed ta),
                     Evaluate a (rng w2)])"
    from spec_dispatch.evaluate_raises [OF h, of out lg ts] r show ?thesis by simp
  next
    fix a w1 w2 b w3 e w4
    assume h: "from_task_name env t (task_context ea m tk dev) w = (Inr a, w1)"
      "set_seed (seed ta) w1 = (Inr (), w2)"
      "evaluate env a w2 = (Inr b, w3)"
      "save_metrics env b out lg w3 = (Inl e, w4)"
      and r: "run_task env ea ta m tk dev lg out t w =
        (Inl e, w4, [LogInfo (''Benchmarking '' @ t @ ''...''),
                     FromTaskName t (task_context ea m tk dev), SetSeed (seed ta),
                     Evaluate a (rng w2), SaveMetrics b out lg])"
    from spec_dispatch.save_raises [OF h, of ts] r show ?thesis by simp
  qed
qed

lemma spec_determines_run_tasks:
  assumes "spec_dispatch env (task_context ea m tk dev) (seed ta) out lg ts w res"
  shows "run_tasks env ea ta m tk dev lg out ts w = res"
  using assms
  by (induction rule: spec_dispatch.induct) (simp_all add: run_task_def)

section \<open>Runs of \<open>main\<close>\<close>

lemma main_dispatch:
  assumes "validate ea w = Inr u"
      and "load_model env ea ta w = (Inr (m, tk, dev, lg), w1, tr0)"
      and "os_makedirs env (run_output_dir ea ta w1) True w1 = (Inr v, w2)"
  shows "main env ea ta w =
           (case run_tasks env ea ta m tk dev lg (run_output_dir ea ta w1) (eval_tasks ea) w2 of
              (r, w3, tr3) \<Rightarrow> (r, w3, tr0 @ [MakeDirs (run_output_dir ea ta w1) True] @ tr3))"
  using assms by (simp add: main_def Let_def)

lemma main_makedirs_raises:
  assumes "validate ea w = Inr u"
      and "load_model env ea ta w = (Inr (m, tk, dev, lg), w1, tr0)"
      and "os_makedirs env (run_output_dir ea ta w1) True w1 = (Inl e, w2)"
  shows "main env ea ta w = (Inl e, w2, tr0 @ [MakeDirs (run_output_dir ea ta w1) True])"
  using assms by (simp add: main_def Let_def)

lemma main_cases:
  "(\<exists>e. main env ea ta w = (Inl e, w, []) \<and> validate ea w = Inl e) \<or>
   (\<exists>e w1 tr0. main env ea ta w = (Inl e, w1, tr0) \<and> load_model env ea ta w = (Inl e, w1, tr0)) \<or>
   (\<exists>m tk dev lg w1 tr0.
      validate ea w = Inr () \<and>
      load_model env ea ta w = (Inr (m, tk, dev, lg), w1, tr0) \<and>
      ((\<exists>e w2. os_makedirs env (run_output_dir ea ta w1) True w1 = (Inl e, w2) \<and>
            main env ea ta w = (Inl e, w2, tr0 @ [MakeDirs (run_output_dir ea ta w1) True])) \<or>
       (\<exists>w2 r w3 tr3. os_makedirs env (run_output_dir ea ta w1) True w1 = (Inr (), w2) \<and>
            run_tasks env ea ta m tk dev lg (run_output_dir ea ta w1) (eval_tasks ea) w2 =
              (r, w3, tr3) \<and>
            main env ea ta w = (r, w3, tr0 @ [MakeDirs (run_output_dir ea ta w1) True] @ tr3))))"
  by (auto simp: main_def Let_def split: sum.splits prod.splits)

section \<open>The events of the loop\<close>

lemma run_task_trace:
  assumes "run_task env ea ta m tk dev lg out t w = (r, w', tr)"
  shows "\<exists>ab n. tr = take n (task_steps (task_context ea m tk dev) (seed ta) out lg t ab)"
proof -
  let ?steps = "task_steps (task_context ea m tk dev) (seed ta) out lg t"
  from run_task_cases [of env t ea m tk dev w ta lg out] show ?thesis
  proof (elim disjE exE conjE)
    fix e w1
    assume "run_task env ea ta m tk dev lg out t w =
        (Inl e, w1, [LogInfo (''Benchmarking '' @ t @ ''...''),
                     FromTaskName t (task_context ea m tk dev)])"
    with assms have "tr = take 2 (?steps (undefined, undefined))"
      by (simp add: task_steps_def)
    then show ?thesis by blast
  next
    fix a w1 e w2
    assume "run_task env ea ta m tk dev lg out t w =
        (Inl e, w2, [LogInfo (''Benchmarking '' @ t @ ''...''),
                     FromTaskName t (task_context ea m tk dev), SetSeed (seed ta)])"
    with assms have "tr = take 3 (?steps (undefined, undefined))"
      by (simp add: task_steps_def)
    then show ?thesis by blast
  next
    fix a w1 w2 e w3
    assume s: "set_seed (seed ta) w1 = (Inr (), w2)"
      and "run_task env ea ta m tk dev lg out t w =
        (Inl e, w3, [LogInfo (''Benchmarking '' @ t @ ''...''),
                     FromTaskName t (task_context ea m tk dev), SetSeed (seed ta),
                     Evaluate a (rng w2)])"
    with assms set_seed_Inr [OF s] have "tr = take 4 (?steps (a, a))"
      by (simp add: task_steps_def)
    then show ?thesis by blast
  next
    fix a w1 w2 b w3 e w4
    assume s: "set_seed (seed ta) w1 = (Inr (), w2)"
      and "run_task env ea ta m tk dev lg out t w =
        (Inl e, w4, [LogInfo (''Benchmarking '' @ t @ ''...''),
                     FromTaskName t (task_context ea m tk dev), SetSeed (seed ta),
                     Evaluate a (rng w2), SaveMetrics b out lg])"
    with assms set_seed_Inr [OF s] have "tr = ?steps (a, b)"
      by (simp add: task_steps_def)
    then have "tr = take 5 (?steps (a, b))"
      by (simp add: task_steps_def)
    then show ?thesis by blast
  next
    fix a w1 w2 b w3 w4
    assume s: "set_seed (seed ta) w1 = (Inr (), w2)"
      and "run_task env ea ta m tk dev lg out t w =
        (Inr (), w4, [LogInfo (''Benchmarking '' @ t @ ''...''),
                      FromTaskName t (task_context ea m tk dev), SetSeed (seed ta),
                      Evaluate a (rng w2), SaveMetrics b out lg])"
    with assms set_seed_Inr [OF s] have "tr = ?steps (a, b)"
      by (simp add: task_steps_def)
    then have "tr = take 5 (?steps (a, b))"
      by (simp add: task_steps_def)
    then show ?thesis by blast
  qed
qed

lemma run_tasks_step:
  assumes "run_tasks env ea ta m tk dev lg out (t # ts) w = (r, w', tr)"
  shows "\<exists>r1 w1 tr1 r2 w2 tr2.
           run_task env ea ta m tk dev lg out t w = (r1, w1, tr1) \<and>
           run_tasks env ea ta m tk dev lg out ts w1 = (r2, w2, tr2) \<and>
           (tr = tr1 \<or> tr = tr1 @ tr2)"
proof -
  obtain r1 w1 tr1 where b: "run_task env ea ta m tk dev lg out t w = (r1, w1, tr1)"
    by (cases "run_task env ea ta m tk dev lg out t w") auto
  obtain r2 w2 tr2 where c: "run_tasks env ea ta m tk dev lg out ts w1 = (r2, w2, tr2)"
    by (cases "run_tasks env ea ta m tk dev lg out ts w1") auto
  from assms b c have "tr = tr1 \<or> tr = tr1 @ tr2"
    by (auto split: sum.splits)
  with b c show ?thesis by blast
qed

lemma run_tasks_events:
  "run_tasks env ea ta m tk dev lg out ts w = (r, w', tr) \<Longrightarrow> e \<in> set tr \<Longrightarrow>
     \<exists>t\<in>set ts. \<exists>ab. e \<in> set (task_steps (task_context ea m tk dev) (seed ta) out lg t ab)"
proof (induction ts arbitrary: w r w' tr)
  case Nil
  then show ?case by simp
next
  case (Cons t ts)
  from run_tasks_step [OF Cons.prems(1)] obtain r1 w1 tr1 r2 w2 tr2 where
    b: "run_task env ea ta m tk dev lg out t w = (r1, w1, tr1)"
    and c: "run_tasks env ea ta m tk dev lg out ts w1 = (r2, w2, tr2)"
    and tr: "tr = tr1 \<or> tr = tr1 @ tr2"
    by blast
  from tr Cons.prems(2) have "e \<in> set tr1 \<or> e \<in> set tr2" by auto
  then show ?case
  proof
    assume e: "e \<in> set tr1"
    from run_task_trace [OF b] obtain ab n where
      "tr1 = take n (task_steps (task_context ea m tk dev) (seed ta) out lg t ab)"
      by blast
    with e have "e \<in> set (task_steps (task_context ea m tk dev) (seed ta) out lg t ab)"
      by (auto dest: in_set_takeD)
    then show ?thesis by (intro bexI [of _ t] exI [of _ ab]) simp_all
  next
    assume "e \<in> set tr2"
    from Cons.IH [OF c this] show ?thesis by (simp del: split_paired_Ex)
  qed
qed

lemma run_tasks_from:
  assumes "run_tasks env ea ta m tk dev lg out ts w = (r, w', tr)"
      and "FromTaskName n c \<in> set tr"
  shows "n \<in> set ts \<and> c = task_context ea m tk dev"
  using run_tasks_events [OF assms] by (auto simp: task_steps_def)

lemma run_tasks_loads:
  assumes "run_tasks env ea ta m tk dev lg out ts w = (r, w', tr)"
  shows "filter is_load tr = []"
proof -
  have "\<not> is_load e" if "e \<in> set tr" for e
    using run_tasks_events [OF assms that] by (auto simp: task_steps_def)
  then show ?thesis by (simp add: filter_empty_conv)
qed

lemma run_tasks_makedirs:
  assumes "run_tasks env ea ta m tk dev lg out ts w = (r, w', tr)"
  shows "filter is_makedirs tr = []"
proof -
  have "\<not> is_makedirs e" if "e \<in> set tr" for e
    using run_tasks_events [OF assms that] by (auto simp: task_steps_def)
  then show ?thesis by (simp add: filter_empty_conv)
qed

section \<open>Every \<open>evaluate\<close> is seeded\<close>







lemma load_model_trace:
  assumes "load_model env ea ta w = (r, w', tr)"
  shows "filter is_task_event tr = [] \<and> filter is_makedirs tr = []"
  using assms
  by (auto simp: load_model_def Let_def split: prod.splits sum.splits)



section \<open>An exception leaves the loop\<close>

lemma run_tasks_stop:
  assumes "run_tasks env ea ta m tk dev lg out pre w = (Inr u, w1, tr1)"
      and "run_task env ea ta m tk dev lg out t w1 = (Inl e, w2, tr2)"
  shows "run_tasks env ea ta m tk dev lg out (pre @ t # post) w = (Inl e, w2, tr1 @ tr2)"
  using assms by (simp add: run_tasks_append)

lemma run_task_raises:
  assumes "from_task_name env t (task_context ea m tk dev) w = (Inl e, w') \<or>
           (\<exists>a wa. from_task_name env t (task_context ea m tk dev) w = (Inr a, wa) \<and>
              (set_seed (seed ta) wa = (Inl e, w') \<or>
               (\<exists>wb. set_seed (seed ta) wa = (Inr (), wb) \<and>
                  (evaluate env a wb = (Inl e, w') \<or>
                   (\<exists>b wc. evaluate env a wb = (Inr b, wc) \<and>
                      save_metrics env b out lg wc = (Inl e, w'))))))"
  shows "\<exists>tr ab zs. run_task env ea ta m tk dev lg out t w = (Inl e, w', tr) \<and>
           tr @ zs = task_steps (task_context ea m tk dev) (seed ta) out lg t ab"
proof -
  from assms have "\<exists>tr. run_task env ea ta m tk dev lg out t w = (Inl e, w', tr)"
    by (auto simp: run_task_def Let_def)
  then obtain tr where r: "run_task env ea ta m tk dev lg out t w = (Inl e, w', tr)" by blast
  from run_task_trace [OF r] obtain ab n where
    "tr = take n (task_steps (task_context ea m tk dev) (seed ta) out lg t ab)" by blast
  then have "tr @ drop n (task_steps (task_context ea m tk dev) (seed ta) out lg t ab) =
      task_steps (task_context ea m tk dev) (seed ta) out lg t ab"
    by simp
  with r show ?thesis by blast
qed

section \<open>What the events carry\<close>

lemma load_model_cases:
  "(\<exists>e w1. tokenizer_from_pretrained env (py_or (tokenizer_name ea) (model_name_or_path ea)) w =
        (Inl e, w1) \<and>
      load_model env ea ta w =
        (Inl e, w1,
         [LogInfo (''Beginning evaluation on device '' @ device ta), LogInfo ''Loading model...'',
          TokenizerFromPretrained (py_or (tokenizer_name ea) (model_name_or_path ea))])) \<or>
   (\<exists>tk0 w1 e w2.
      tokenizer_from_pretrained env (py_or (tokenizer_name ea) (model_name_or_path ea)) w =
        (Inr tk0, w1) \<and>
      model_from_pretrained env (MODEL_TYPE (model_name_or_path ea)) (model_name_or_path ea)
        (eos_token tk0) w1 = (Inl e, w2) \<and>
      load_model env ea ta w =
        (Inl e, w2,
         [LogInfo (''Beginning evaluation on device '' @ device ta), LogInfo ''Loading model...'',
          TokenizerFromPretrained (py_or (tokenizer_name ea) (model_name_or_path ea)),
          ModelFromPretrained (MODEL_TYPE (model_name_or_path ea)) (model_name_or_path ea)
            (eos_token tk0)])) \<or>
   (\<exists>tk0 w1 m0 w2.
      tokenizer_from_pretrained env (py_or (tokenizer_name ea) (model_name_or_path ea)) w =
        (Inr tk0, w1) \<and>
      model_from_pretrained env (MODEL_TYPE (model_name_or_path ea)) (model_name_or_path ea)
        (eos_token tk0) w1 = (Inr m0, w2) \<and>
      load_model env ea ta w =
        (Inr (\<lparr>config = (config m0)\<lparr>pad_token_id := eos_token_id (config m0)\<rparr>,
               num_embeddings = tokenizer_len tk0,
               model_device = Some (TorchDevice (device ta))\<rparr>,
              tk0\<lparr>pad_token := eos_token tk0, padding_side := ''left''\<rparr>,
              TorchDevice (device ta), get_logger env),
         w2,
         [LogInfo (''Beginning evaluation on device '' @ device ta), LogInfo ''Loading model...'',
          TokenizerFromPretrained (py_or (tokenizer_name ea) (model_name_or_path ea)),
          ModelFromPretrained (MODEL_TYPE (model_name_or_path ea)) (model_name_or_path ea)
            (eos_token tk0)]))"
  by (auto simp: load_model_def Let_def split: prod.splits sum.splits)

lemma load_model_from:
  assumes "load_model env ea ta w = (r, w', tr)"
  shows "FromTaskName n c \<notin> set tr"
  using load_model_cases [of env ea w ta] assms by auto

lemma load_model_loads:
  assumes "load_model env ea ta w = (r, w', tr)"
      and "ModelFromPretrained mt n kw \<in> set tr"
  shows "n = model_name_or_path ea \<and> mt = MODEL_TYPE n"
  using load_model_cases [of env ea w ta] assms by auto

lemma load_model_with_class:
  assumes "tokenizer_from_pretrained env (py_or (tokenizer_name ea) (model_name_or_path ea)) w =
             (Inr tk0, w1)"
  shows "load_model env ea ta w =
           load_with_class env ea ta tk0 w1 (MODEL_TYPE (model_name_or_path ea))"
  using assms
  by (simp add: load_model_def load_with_class_def Let_def split: prod.splits sum.splits)

lemma main_from:
  assumes "FromTaskName n c \<in> set (snd (snd (main env ea ta w)))"
  shows "\<exists>m tk dev lg w1 tr0.
           load_model env ea ta w = (Inr (m, tk, dev, lg), w1, tr0) \<and>
           c = task_context ea m tk dev \<and> n \<in> set (eval_tasks ea)"
  using main_cases [of env ea ta w]
proof (elim disjE exE conjE)
  fix e
  assume "main env ea ta w = (Inl e, w, [])"
  with assms show ?thesis by simp
next
  fix e w1 tr0
  assume "main env ea ta w = (Inl e, w1, tr0)" "load_model env ea ta w = (Inl e, w1, tr0)"
  with assms load_model_from show ?thesis by fastforce
next
  fix m tk dev lg w1 tr0 e w2
  assume "load_model env ea ta w = (Inr (m, tk, dev, lg), w1, tr0)"
      "main env ea ta w = (Inl e, w2, tr0 @ [MakeDirs (run_output_dir ea ta w1) True])"
  with assms load_model_from show ?thesis by fastforce
next
  fix m tk dev lg w1 tr0 w2 r w3 tr3
  assume l: "load_model env ea ta w = (Inr (m, tk, dev, lg), w1, tr0)"
    and r: "run_tasks env ea ta m tk dev lg (run_output_dir ea ta w1) (eval_tasks ea) w2 =
              (r, w3, tr3)"
    and m: "main env ea ta w = (r, w3, tr0 @ [MakeDirs (run_output_dir ea ta w1) True] @ tr3)"
  from assms m load_model_from [OF l] have "FromTaskName n c \<in> set tr3" by auto
  from run_tasks_from [OF r this] l show ?thesis by blast
qed

lemma main_loads:
  assumes "ModelFromPretrained mt n kw \<in> set (snd (snd (main env ea ta w)))"
  shows "n = model_name_or_path ea \<and> mt = MODEL_TYPE n"
  using main_cases [of env ea ta w]
proof (elim disjE exE conjE)
  fix e
  assume "main env ea ta w = (Inl e, w, [])"
  with assms show ?thesis by simp
next
  fix e w1 tr0
  assume "main env ea ta w = (Inl e, w1, tr0)" "load_model env ea ta w = (Inl e, w1, tr0)"
  with assms load_model_loads show ?thesis by fastforce
next
  fix m tk dev lg w1 tr0 e w2
  assume l: "load_model env ea ta w = (Inr (m, tk, dev, lg), w1, tr0)"
    and m: "main env ea ta w = (Inl e, w2, tr0 @ [MakeDirs (run_output_dir ea ta w1) True])"
  from assms m have "ModelFromPretrained mt n kw \<in> set tr0" by simp
  from load_model_loads [OF l this] show ?thesis .
next
  fix m tk dev lg w1 tr0 w2 r w3 tr3
  assume l: "load_model env ea ta w = (Inr (m, tk, dev, lg), w1, tr0)"
    and r: "run_tasks env ea ta m tk dev lg (run_output_dir ea ta w1) (eval_tasks ea) w2 =
              (r, w3, tr3)"
    and m: "main env ea ta w = (r, w3, tr0 @ [MakeDirs (run_output_dir ea ta w1) True] @ tr3)"
  have "ModelFromPretrained mt n kw \<notin> set tr3"
  proof
    assume "ModelFromPretrained mt n kw \<in> set tr3"
    then have "ModelFromPretrained mt n kw \<in> set (filter is_load tr3)" by simp
    with run_tasks_loads [OF r] show False by simp
  qed
  with assms m have "ModelFromPretrained mt n kw \<in> set tr0" by auto
  from load_model_loads [OF l this] show ?thesis .
qed

section \<open>The output directory\<close>

lemma main_makedirs:
  assumes "validate ea w = Inr u"
      and "load_model env ea ta w = (Inr (m, tk, dev, lg), w1, tr0)"
  shows "filter is_makedirs (snd (snd (main env ea ta w))) =
           [MakeDirs (run_output_dir ea ta w1) True] \<and>
         (\<exists>ys. snd (snd (main env ea ta w)) =
            tr0 @ MakeDirs (run_output_dir ea ta w1) True # ys) \<and>
         filter is_task_event tr0 = []"
proof -
  from load_model_trace [OF assms(2)] have
    t0: "filter is_task_event tr0 = []" "filter is_makedirs tr0 = []" by simp_all
  obtain x w2 where mk: "os_makedirs env (run_output_dir ea ta w1) True w1 = (x, w2)"
    by (cases "os_makedirs env (run_output_dir ea ta w1) True w1") auto
  show ?thesis
  proof (cases x)
    case (Inl e)
    with main_makedirs_raises [OF assms] mk
    have "main env ea ta w = (Inl e, w2, tr0 @ [MakeDirs (run_output_dir ea ta w1) True])"
      by simp
    with t0 show ?thesis by simp
  next
    case (Inr v)
    obtain r w3 tr3 where
      r: "run_tasks env ea ta m tk dev lg (run_output_dir ea ta w1) (eval_tasks ea) w2 =
            (r, w3, tr3)"
      by (cases "run_tasks env ea ta m tk dev lg (run_output_dir ea ta w1) (eval_tasks ea) w2")
        auto
    from main_dispatch [OF assms] mk Inr r have
      "main env ea ta w = (r, w3, tr0 @ [MakeDirs (run_output_dir ea ta w1) True] @ tr3)"
      by simp
    with t0 run_tasks_makedirs [OF r] show ?thesis by simp
  qed
qed

lemma digit_char_inj:
  assumes "digit_char a = digit_char b"
  shows "a mod 10 = b mod 10"
proof -
  have d: "distinct ''0123456789''" by simp
  have l: "a mod 10 < length ''0123456789''" "b mod 10 < length ''0123456789''" by simp_all
  from assms have "''0123456789'' ! (a mod 10) = ''0123456789'' ! (b mod 10)"
    by (simp add: digit_char_def)
  with nth_eq_iff_index_eq [OF d l] show ?thesis by blast
qed

lemma two_digits_inj:
  assumes "two_digits a = two_digits b" and "a < 100" and "b < 100"
  shows "a = b"
proof -
  from assms(1) have "digit_char (a div 10) = digit_char (b div 10)" "digit_char a = digit_char b"
    by (simp_all add: two_digits_def)
  then have m: "(a div 10) mod 10 = (b div 10) mod 10" "a mod 10 = b mod 10"
    by (auto dest: digit_char_inj)
  from assms(2,3) have "a div 10 < 10" "b div 10 < 10" by simp_all
  with m(1) have "a div 10 = b div 10" by simp
  with m(2) show ?thesis by (metis div_mult_mod_eq)
qed

lemma strftime_tag_seconds:
  assumes "strftime_tag t = strftime_tag t'"
  shows "two_digits (second t) = two_digits (second t')"
  using assms by (simp add: strftime_tag_def two_digits_def)

lemma strftime_tag_second:
  assumes "strftime_tag t = strftime_tag t'" and "second t < 60" and "second t' < 60"
  shows "second t = second t'"
proof -
  from assms(2,3) have "second t < 100" "second t' < 100" by simp_all
  with strftime_tag_seconds [OF assms(1)] show ?thesis by (rule two_digits_inj)
qed

lemma path_join_plain:
  assumes "a \<noteq> []" and "last a \<noteq> CHR ''/''" and "hd b \<noteq> CHR ''/''"
  shows "path_join a b = a @ ''/'' @ b"
  using assms by (simp add: path_join_def)

section \<open>The concrete runs, evaluated\<close>

lemma demo_eval_args_sel:
  "eval_tasks (demo_eval_args ts tg dd) = ts"
  "tag (demo_eval_args ts tg dd) = tg"
  "data_dir (demo_eval_args ts tg dd) = dd"
  "english_only (demo_eval_args ts tg dd) = Some True"
  "model_name_or_path (demo_eval_args ts tg dd) = ''gpt2''"
  "tokenizer_name (demo_eval_args ts tg dd) = None"
  by (simp_all add: demo_eval_args_def)

lemma demo_seed: "seed demo_train_args = 42"
  by (simp add: demo_train_args_def)

lemma demo_set_seed: "set_seed 42 w = (Inr (), w\<lparr>rng := seeded 42\<rparr>)"
  by (simp add: set_seed_in_range)

lemma demo_load_gpt2:
  "load_model demo_env (demo_eval_args ts tg dd) demo_train_args demo_world =
     (Inr (loaded_gpt2, loaded_gpt2_tokenizer, TorchDevice ''cpu'', Logger ''evaluation''),
      demo_world, load_events_gpt2)"
  by (simp add: load_model_def demo_env_def demo_eval_args_def demo_train_args_def
      py_or_def demo_tokenizer_from_pretrained_def demo_model_from_pretrained_def MODEL_TYPE_def
      gpt2_tokenizer_def Let_def kw_pad_def loaded_gpt2_def loaded_gpt2_tokenizer_def
      load_events_gpt2_def)


lemma demo_load_mixed:
  "load_model demo_env mixed_eval_args demo_train_args demo_world =
     (Inr (loaded_mixed_model, loaded_t0_tokenizer, TorchDevice ''cpu'', Logger ''evaluation''),
      demo_world,
      [LogInfo ''Beginning evaluation on device cpu'', LogInfo ''Loading model...'',
       TokenizerFromPretrained ''bigscience/T0'',
       ModelFromPretrained AutoModelForCausalLM ''gpt2'' (Some ''</s>'')])"
  by (simp add: load_model_def demo_env_def mixed_eval_args_def demo_train_args_def
      py_or_def demo_tokenizer_from_pretrained_def demo_model_from_pretrained_def MODEL_TYPE_def
      t0_tokenizer_def Let_def kw_pad_def loaded_mixed_model_def loaded_t0_tokenizer_def)

lemma demo_load_t0:
  "load_model demo_env t0_eval_args demo_train_args demo_world =
     (Inr (loaded_t0, loaded_t0_tokenizer, TorchDevice ''cpu'', Logger ''evaluation''),
      demo_world,
      [LogInfo ''Beginning evaluation on device cpu'', LogInfo ''Loading model...'',
       TokenizerFromPretrained ''bigscience/T0'',
       ModelFromPretrained AutoModelForSeq2SeqLM ''bigscience/T0'' (Some ''</s>'')])"
  by (simp add: load_model_def demo_env_def t0_eval_args_def demo_train_args_def
      py_or_def demo_tokenizer_from_pretrained_def demo_model_from_pretrained_def MODEL_TYPE_def
      t0_tokenizer_def Let_def kw_pad_def loaded_t0_def loaded_t0_tokenizer_def)

lemma demo_task_context:
  "task_context (demo_eval_args ts tg dd) loaded_gpt2 loaded_gpt2_tokenizer (TorchDevice ''cpu'') =
     demo_ctx dd"
  by (simp add: task_context_def demo_ctx_def demo_eval_args_def)

lemma demo_run_task_ok:
  assumes "t = ''task_a'' \<or> t = ''task_b''" and "0 \<le> seed ta" and "seed ta < 2 ^ 32"
  shows "run_task demo_env ea ta m tk dev lg out t w =
     (Inr (),
      w\<lparr>rng := (seeded (seed ta))\<lparr>py_random := Gen (seed ta) 3\<rparr>,
        fs := (fs w)(path_join out (t @ ''.json'') \<mapsto> File)\<rparr>,
      [LogInfo (''Benchmarking '' @ t @ ''...''), FromTaskName t (task_context ea m tk dev),
       SetSeed (seed ta), Evaluate (DemoTask t None) (seeded (seed ta)),
       SaveMetrics (DemoTask t (Some (seed ta))) out lg])"
  using assms
  by (auto simp: run_task_def demo_env_def demo_from_task_name_def Let_def set_seed_in_range
      next_draw_def draw3_def seeded_def)


lemma demo_makedirs_run1:
  "os_makedirs demo_env ''/tmp/out/run1'' True demo_world = (Inr (), demo_world_dir)"
  by (simp add: demo_env_def demo_makedirs_def demo_world_def demo_world_dir_def)


lemma demo_makedirs_contract: "makedirs_contract demo_env"
  by (auto simp: makedirs_contract_def demo_env_def demo_makedirs_def
      split: option.splits node.splits if_splits)

lemma demo_output_dir_run1:
  "run_output_dir (demo_eval_args ts (Some ''run1'') dd) demo_train_args w = ''/tmp/out/run1''"
  by (simp add: run_output_dir_def run_tag_def py_or_def path_join_def demo_eval_args_def
      demo_train_args_def)

lemma demo_strftime: "strftime_tag (clock demo_world) = ''240305_140709''"
  by (simp add: strftime_tag_def two_digits_def digit_char_def demo_world_def)

lemma demo_output_dir_empty_tag:
  "run_output_dir (demo_eval_args ts (Some []) dd) demo_train_args demo_world =
     ''/tmp/out/240305_140709''"
  by (simp add: run_output_dir_def run_tag_def py_or_def demo_eval_args_sel demo_strftime
      path_join_def demo_train_args_def)

lemma demo_output_dir_abs_tag:
  "run_output_dir (demo_eval_args ts (Some ''/abs'') dd) demo_train_args demo_world = ''/abs''"
  by (simp add: run_output_dir_def run_tag_def py_or_def demo_eval_args_sel
      path_join_def demo_train_args_def)

lemma demo_validate_ok:
  "validate (demo_eval_args [''task_a'', ''task_b''] tg dd) w = Inr ()"
  by (simp add: validate_def demo_eval_args_def)

lemma demo_validate1: "validate (demo_eval_args [''task_a''] tg dd) w = Inr ()"
  by (simp add: validate_def demo_eval_args_def)

lemma demo_validate3:
  "validate (demo_eval_args [''task_a'', ''task_bad'', ''task_b''] tg dd) w = Inr ()"
  by (simp add: validate_def demo_eval_args_def)


lemma demo_run_task_a:
  "run_task demo_env (demo_eval_args ts tg dd) demo_train_args loaded_gpt2 loaded_gpt2_tokenizer
     (TorchDevice ''cpu'') (Logger ''evaluation'') ''/tmp/out/run1'' ''task_a'' demo_world_dir =
   (Inr (), demo_world_after_a,
    [LogInfo ''Benchmarking task_a...'',
     FromTaskName ''task_a'' (demo_ctx dd),
     SetSeed 42,
     Evaluate (DemoTask ''task_a'' None) (seeded 42),
     SaveMetrics (DemoTask ''task_a'' (Some 42)) ''/tmp/out/run1'' (Logger ''evaluation'')])"
  by (simp add: demo_run_task_ok demo_seed demo_task_context demo_world_after_a_def path_join_def)

lemma demo_run_task_b:
  "run_task demo_env (demo_eval_args ts tg dd) demo_train_args loaded_gpt2 loaded_gpt2_tokenizer
     (TorchDevice ''cpu'') (Logger ''evaluation'') ''/tmp/out/run1'' ''task_b'' w =
   (Inr (),
    w\<lparr>rng := (seeded 42)\<lparr>py_random := Gen 42 3\<rparr>,
      fs := (fs w)(''/tmp/out/run1/task_b.json'' \<mapsto> File)\<rparr>,
    [LogInfo ''Benchmarking task_b...'',
     FromTaskName ''task_b'' (demo_ctx dd),
     SetSeed 42,
     Evaluate (DemoTask ''task_b'' None) (seeded 42),
     SaveMetrics (DemoTask ''task_b'' (Some 42)) ''/tmp/out/run1'' (Logger ''evaluation'')])"
  by (simp add: demo_run_task_ok demo_seed demo_task_context path_join_def)

lemma demo_run_task_bad:
  "run_task demo_env ea demo_train_args m tk dev lg out ''task_bad'' w =
     (Inl (ExternalError ''RuntimeError''), w\<lparr>rng := seeded 42\<rparr>,
      [LogInfo ''Benchmarking task_bad...'',
       FromTaskName ''task_bad'' (task_context ea m tk dev),
       SetSeed 42, Evaluate (DemoTask ''task_bad'' None) (seeded 42)])"
  by (simp add: run_task_def demo_env_def demo_from_task_name_def Let_def demo_seed
      demo_set_seed)

lemma demo_run1_ok:
  "fst (main demo_env (demo_eval_args [''task_a'', ''task_b''] (Some ''run1'') dd)
          demo_train_args demo_world) = Inr ()"
  by (simp add: main_def demo_validate_ok demo_load_gpt2 demo_output_dir_run1
      demo_makedirs_run1 demo_eval_args_sel demo_run_task_a demo_run_task_b Let_def)

lemma demo_run1_trace:
  "snd (snd (main demo_env (demo_eval_args [''task_a'', ''task_b''] (Some ''run1'') dd)
          demo_train_args demo_world)) =
     load_events_gpt2 @
     [MakeDirs ''/tmp/out/run1'' True,
      LogInfo ''Benchmarking task_a...'',
      FromTaskName ''task_a'' (demo_ctx dd),
      SetSeed 42,
      Evaluate (DemoTask ''task_a'' None) (seeded 42),
      SaveMetrics (DemoTask ''task_a'' (Some 42)) ''/tmp/out/run1'' (Logger ''evaluation''),
      LogInfo ''Benchmarking task_b...'',
      FromTaskName ''task_b'' (demo_ctx dd),
      SetSeed 42,
      Evaluate (DemoTask ''task_b'' None) (seeded 42),
      SaveMetrics (DemoTask ''task_b'' (Some 42)) ''/tmp/out/run1'' (Logger ''evaluation'')]"
  by (simp add: main_def demo_validate_ok demo_load_gpt2 demo_output_dir_run1
      demo_makedirs_run1 demo_eval_args_sel demo_run_task_a demo_run_task_b Let_def)




lemma demo_load_gpt2_any:
  "load_model demo_env (demo_eval_args ts tg dd) demo_train_args w =
     (Inr (loaded_gpt2, loaded_gpt2_tokenizer, TorchDevice ''cpu'', Logger ''evaluation''),
      w, load_events_gpt2)"
  by (simp add: load_model_def demo_env_def demo_eval_args_def demo_train_args_def
      py_or_def demo_tokenizer_from_pretrained_def demo_model_from_pretrained_def MODEL_TYPE_def
      gpt2_tokenizer_def Let_def kw_pad_def loaded_gpt2_def loaded_gpt2_tokenizer_def
      load_events_gpt2_def)

lemma demo_makedirs_file:
  "os_makedirs demo_env ''/tmp/out/run1'' True demo_world_file =
     (Inl (FileExistsError ''/tmp/out/run1''), demo_world_file)"
  by (simp add: demo_env_def demo_makedirs_def demo_world_def demo_world_file_def)

lemma demo_run_tasks_ab:
  "run_tasks demo_env (demo_eval_args ts (Some ''run1'') dd) demo_train_args loaded_gpt2
     loaded_gpt2_tokenizer (TorchDevice ''cpu'') (Logger ''evaluation'') ''/tmp/out/run1''
     [''task_a'', ''task_b''] demo_world_dir =
   (Inr (), demo_world_after_b,
    [LogInfo ''Benchmarking task_a...'',
     FromTaskName ''task_a'' (demo_ctx dd),
     SetSeed 42,
     Evaluate (DemoTask ''task_a'' None) (seeded 42),
     SaveMetrics (DemoTask ''task_a'' (Some 42)) ''/tmp/out/run1'' (Logger ''evaluation''),
     LogInfo ''Benchmarking task_b...'',
     FromTaskName ''task_b'' (demo_ctx dd),
     SetSeed 42,
     Evaluate (DemoTask ''task_b'' None) (seeded 42),
     SaveMetrics (DemoTask ''task_b'' (Some 42)) ''/tmp/out/run1'' (Logger ''evaluation'')])"
  by (simp add: demo_run_task_a demo_run_task_b demo_world_after_b_def)

section \<open>Claims on the validation\<close>

text \<open>
  C1. Whatever the other arguments, the collaborators and the world are, a run whose
  \<open>eval_tasks\<close> is empty ends with the \<open>ValueError\<close> of line 41, has made no call at all (so
  neither the tokenizer nor the model was loaded) and has left the world as it was.
\<close>

theorem empty_tasks_raise:
  assumes "eval_tasks ea = []"
  shows "main env ea ta w = (Inl (ValueError msg_no_task), w, []) \<and>
         filter is_load (snd (snd (main env ea ta w))) = []"
  using assms by (simp add: main_def validate_def)

theorem empty_tasks_raise_witness:
  "eval_tasks (demo_eval_args [] None None) = [] \<and>
   main demo_env (demo_eval_args [] None None) demo_train_args demo_world =
     (Inl (ValueError msg_no_task), demo_world, []) \<and>
   filter is_load
     (snd (snd (main demo_env (demo_eval_args [] None None) demo_train_args demo_world))) = []"
  using empty_tasks_raise [of "demo_eval_args [] None None" demo_env demo_train_args demo_world]
  by (simp add: demo_eval_args_def)

text \<open>
  C2. A run that lists \<open>jigsaw_toxicity_pred\<close> and whose \<open>data_dir\<close> is \<open>None\<close>, or names a
  path that does not exist, ends with the \<open>ValueError\<close> of line 45 or of line 50, has made no
  call at all (so neither the tokenizer nor the model was loaded) and has left the world as
  it was.
\<close>

theorem jigsaw_without_data_dir_raises:
  assumes "''jigsaw_toxicity_pred'' \<in> set (eval_tasks ea)"
      and "data_dir ea = None \<or> (\<exists>d. data_dir ea = Some d \<and> \<not> path_exists w d)"
  shows "main env ea ta w =
           (Inl (ValueError (if data_dir ea = None then msg_no_data_dir
                             else msg_data_dir_missing)), w, []) \<and>
         filter is_load (snd (snd (main env ea ta w))) = []"
proof -
  from assms(1) have ne: "eval_tasks ea \<noteq> []" by auto
  from assms(2) show ?thesis
  proof
    assume "data_dir ea = None"
    with ne assms(1) show ?thesis by (simp add: main_def validate_def)
  next
    assume "\<exists>d. data_dir ea = Some d \<and> \<not> path_exists w d"
    then obtain d where "data_dir ea = Some d" "\<not> path_exists w d" by blast
    with ne assms(1) show ?thesis by (simp add: main_def validate_def)
  qed
qed

theorem jigsaw_without_data_dir_raises_witness:
  "''jigsaw_toxicity_pred'' \<in> set (eval_tasks (demo_eval_args [''jigsaw_toxicity_pred''] None None)) \<and>
   data_dir (demo_eval_args [''jigsaw_toxicity_pred''] None None) = None \<and>
   main demo_env (demo_eval_args [''jigsaw_toxicity_pred''] None None) demo_train_args demo_world =
     (Inl (ValueError msg_no_data_dir), demo_world, []) \<and>
   ''jigsaw_toxicity_pred'' \<in>
     set (eval_tasks (demo_eval_args [''task_a'', ''jigsaw_toxicity_pred''] None (Some ''/data''))) \<and>
   \<not> path_exists demo_world ''/data'' \<and>
   main demo_env (demo_eval_args [''task_a'', ''jigsaw_toxicity_pred''] None (Some ''/data''))
     demo_train_args demo_world =
     (Inl (ValueError msg_data_dir_missing), demo_world, [])"
  using
    jigsaw_without_data_dir_raises
      [of "demo_eval_args [''jigsaw_toxicity_pred''] None None" demo_world demo_env demo_train_args]
    jigsaw_without_data_dir_raises
      [of "demo_eval_args [''task_a'', ''jigsaw_toxicity_pred''] None (Some ''/data'')" demo_world
          demo_env demo_train_args]
  by (simp add: demo_eval_args_def demo_world_def path_exists_def)



section \<open>Claims on the loop\<close>

text \<open>
  C3. The loop of lines 83-95 does what the dispatch of the specification says, for every
  list of task names and every world, whether it ends with or without an exception, and
  nothing else: \<open>run_tasks\<close> returns an outcome if and only if \<open>spec_dispatch\<close> relates the
  list and the world to it. So the task names are taken in the order of the list and, for
  each, the registry is called with the name, the model, the tokenizer, the device, the
  \<open>english_only\<close> flag and \<open>data_dir\<close>, then \<open>set_seed\<close> with the configured seed, then
  \<open>evaluate\<close> on the object the registry returned, then \<open>save_metrics\<close> on that object with
  the output directory and the logger, each call in the world the call before left. A run
  of \<open>main\<close> that gets past the creation of the directory ends as this dispatch of
  \<open>eval_tasks\<close> ends, from the world \<open>os.makedirs\<close> left, and no other run has an event of
  the loop. Without an exception the events of the loop are one block of five per task
  name, in the order of the list. The only call of a block that the claim does not list is
  the progress message.
\<close>

theorem tasks_run_in_listed_order:
  "(spec_dispatch env
      \<lparr>ctx_model = m, ctx_tokenizer = tk, ctx_device = dev,
       ctx_english_only = english_only ea, ctx_data_dir = data_dir ea\<rparr>
      (seed ta) out lg ts w res \<longleftrightarrow>
    res = run_tasks env ea ta m tk dev lg out ts w) \<and>
   (validate ea w0 = Inr () \<and>
    load_model env ea ta w0 = (Inr (m, tk, dev, lg), w1, tr0) \<and>
    os_makedirs env (run_output_dir ea ta w1) True w1 = (Inr (), w2) \<longrightarrow>
      (\<exists>r w3 tr3.
         spec_dispatch env
           \<lparr>ctx_model = m, ctx_tokenizer = tk, ctx_device = dev,
            ctx_english_only = english_only ea, ctx_data_dir = data_dir ea\<rparr>
           (seed ta) (run_output_dir ea ta w1) lg (eval_tasks ea) w2 (r, w3, tr3) \<and>
         main env ea ta w0 =
           (r, w3, tr0 @ [MakeDirs (run_output_dir ea ta w1) True] @ tr3))) \<and>
   (filter is_task_event (snd (snd (main env ea ta w0))) \<noteq> [] \<longrightarrow>
      (\<exists>m' tk' dev' lg' w1' tr0' w2'.
         validate ea w0 = Inr () \<and>
         load_model env ea ta w0 = (Inr (m', tk', dev', lg'), w1', tr0') \<and>
         os_makedirs env (run_output_dir ea ta w1') True w1' = (Inr (), w2'))) \<and>
   (run_tasks env ea ta m tk dev lg out ts w = (Inr (), w', tr) \<longrightarrow>
      (\<exists>objs. length objs = length ts \<and>
         tr = concat (map2 (\<lambda>t (a, b).
                 [LogInfo (''Benchmarking '' @ t @ ''...''),
                  FromTaskName t
                    \<lparr>ctx_model = m, ctx_tokenizer = tk, ctx_device = dev,
                     ctx_english_only = english_only ea, ctx_data_dir = data_dir ea\<rparr>,
                  SetSeed (seed ta),
                  Evaluate a (seeded (seed ta)),
                  SaveMetrics b out lg])
               ts objs)))"
proof (intro conjI impI)
  have ctx: "\<lparr>ctx_model = m, ctx_tokenizer = tk, ctx_device = dev,
       ctx_english_only = english_only ea, ctx_data_dir = data_dir ea\<rparr> =
     task_context ea m tk dev"
    by (simp add: task_context_def)
  show "spec_dispatch env
      \<lparr>ctx_model = m, ctx_tokenizer = tk, ctx_device = dev,
       ctx_english_only = english_only ea, ctx_data_dir = data_dir ea\<rparr>
      (seed ta) out lg ts w res \<longleftrightarrow>
    res = run_tasks env ea ta m tk dev lg out ts w"
    unfolding ctx
  proof
    assume "spec_dispatch env (task_context ea m tk dev) (seed ta) out lg ts w res"
    from spec_determines_run_tasks [OF this] show "res = run_tasks env ea ta m tk dev lg out ts w"
      by simp
  next
    assume "res = run_tasks env ea ta m tk dev lg out ts w"
    then show "spec_dispatch env (task_context ea m tk dev) (seed ta) out lg ts w res"
      by (simp add: run_tasks_meets_spec)
  qed
  {
    assume a: "validate ea w0 = Inr () \<and>
      load_model env ea ta w0 = (Inr (m, tk, dev, lg), w1, tr0) \<and>
      os_makedirs env (run_output_dir ea ta w1) True w1 = (Inr (), w2)"
    obtain r w3 tr3 where
      r: "run_tasks env ea ta m tk dev lg (run_output_dir ea ta w1) (eval_tasks ea) w2 =
            (r, w3, tr3)"
      by (cases "run_tasks env ea ta m tk dev lg (run_output_dir ea ta w1) (eval_tasks ea) w2")
        auto
    from a main_dispatch [of ea w0 "()" env ta m tk dev lg w1 tr0 "()" w2] r
    have "main env ea ta w0 = (r, w3, tr0 @ [MakeDirs (run_output_dir ea ta w1) True] @ tr3)"
      by simp
    moreover from r run_tasks_meets_spec [of env ea m tk dev ta "run_output_dir ea ta w1" lg
        "eval_tasks ea" w2]
    have "spec_dispatch env (task_context ea m tk dev) (seed ta) (run_output_dir ea ta w1) lg
            (eval_tasks ea) w2 (r, w3, tr3)"
      by simp
    ultimately show "\<exists>r w3 tr3.
         spec_dispatch env
           \<lparr>ctx_model = m, ctx_tokenizer = tk, ctx_device = dev,
            ctx_english_only = english_only ea, ctx_data_dir = data_dir ea\<rparr>
           (seed ta) (run_output_dir ea ta w1) lg (eval_tasks ea) w2 (r, w3, tr3) \<and>
         main env ea ta w0 =
           (r, w3, tr0 @ [MakeDirs (run_output_dir ea ta w1) True] @ tr3)"
      unfolding ctx by blast
  }
  {
    assume n: "filter is_task_event (snd (snd (main env ea ta w0))) \<noteq> []"
    from main_cases [of env ea ta w0]
    show "\<exists>m' tk' dev' lg' w1' tr0' w2'.
         validate ea w0 = Inr () \<and>
         load_model env ea ta w0 = (Inr (m', tk', dev', lg'), w1', tr0') \<and>
         os_makedirs env (run_output_dir ea ta w1') True w1' = (Inr (), w2')"
    proof (elim disjE exE conjE)
      fix e
      assume "main env ea ta w0 = (Inl e, w0, [])"
      with n show ?thesis by simp
    next
      fix e w1 tr0
      assume "main env ea ta w0 = (Inl e, w1, tr0)" "load_model env ea ta w0 = (Inl e, w1, tr0)"
      with n load_model_trace show ?thesis by fastforce
    next
      fix m tk dev lg w1 tr0 e w2
      assume "load_model env ea ta w0 = (Inr (m, tk, dev, lg), w1, tr0)"
        "main env ea ta w0 = (Inl e, w2, tr0 @ [MakeDirs (run_output_dir ea ta w1) True])"
      with n load_model_trace show ?thesis by fastforce
    next
      fix m tk dev lg w1 tr0 w2 r w3 tr3
      assume "validate ea w0 = Inr ()"
        "load_model env ea ta w0 = (Inr (m, tk, dev, lg), w1, tr0)"
        "os_makedirs env (run_output_dir ea ta w1) True w1 = (Inr (), w2)"
      then show ?thesis by blast
    qed
  }
  {
    assume r: "run_tasks env ea ta m tk dev lg out ts w = (Inr (), w', tr)"
    from run_tasks_Inr [OF r] obtain objs where
      objs: "length objs = length ts"
        "tr = concat (map2 (task_steps (task_context ea m tk dev) (seed ta) out lg) ts objs)"
      by blast
    have fe: "task_steps (task_context ea m tk dev) (seed ta) out lg =
          (\<lambda>t (a, b).
             [LogInfo (''Benchmarking '' @ t @ ''...''),
              FromTaskName t
                \<lparr>ctx_model = m, ctx_tokenizer = tk, ctx_device = dev,
                 ctx_english_only = english_only ea, ctx_data_dir = data_dir ea\<rparr>,
              SetSeed (seed ta),
              Evaluate a (seeded (seed ta)),
              SaveMetrics b out lg])"
      by (auto simp: fun_eq_iff task_steps_def task_context_def)
    have "tr = concat (map2 (\<lambda>t (a, b).
                 [LogInfo (''Benchmarking '' @ t @ ''...''),
                  FromTaskName t
                    \<lparr>ctx_model = m, ctx_tokenizer = tk, ctx_device = dev,
                     ctx_english_only = english_only ea, ctx_data_dir = data_dir ea\<rparr>,
                  SetSeed (seed ta),
                  Evaluate a (seeded (seed ta)),
                  SaveMetrics b out lg])
               ts objs)"
      by (simp only: objs(2) fe)
    with objs(1) show "\<exists>objs. length objs = length ts \<and>
         tr = concat (map2 (\<lambda>t (a, b).
                 [LogInfo (''Benchmarking '' @ t @ ''...''),
                  FromTaskName t
                    \<lparr>ctx_model = m, ctx_tokenizer = tk, ctx_device = dev,
                     ctx_english_only = english_only ea, ctx_data_dir = data_dir ea\<rparr>,
                  SetSeed (seed ta),
                  Evaluate a (seeded (seed ta)),
                  SaveMetrics b out lg])
               ts objs)"
      by blast
  }
qed

theorem tasks_run_in_listed_order_witness:
  "validate (demo_eval_args [''task_a'', ''task_b''] (Some ''run1'') None) demo_world = Inr () \<and>
   load_model demo_env (demo_eval_args [''task_a'', ''task_b''] (Some ''run1'') None)
     demo_train_args demo_world =
     (Inr (loaded_gpt2, loaded_gpt2_tokenizer, TorchDevice ''cpu'', Logger ''evaluation''),
      demo_world, load_events_gpt2) \<and>
   os_makedirs demo_env ''/tmp/out/run1'' True demo_world = (Inr (), demo_world_dir) \<and>
   spec_dispatch demo_env (demo_ctx None) 42 ''/tmp/out/run1'' (Logger ''evaluation'')
     [''task_a'', ''task_b''] demo_world_dir
     (Inr (), demo_world_after_b,
      [LogInfo ''Benchmarking task_a...'',
       FromTaskName ''task_a'' (demo_ctx None),
       SetSeed 42,
       Evaluate (DemoTask ''task_a'' None) (seeded 42),
       SaveMetrics (DemoTask ''task_a'' (Some 42)) ''/tmp/out/run1'' (Logger ''evaluation''),
       LogInfo ''Benchmarking task_b...'',
       FromTaskName ''task_b'' (demo_ctx None),
       SetSeed 42,
       Evaluate (DemoTask ''task_b'' None) (seeded 42),
       SaveMetrics (DemoTask ''task_b'' (Some 42)) ''/tmp/out/run1'' (Logger ''evaluation'')]) \<and>
   main demo_env (demo_eval_args [''task_a'', ''task_b''] (Some ''run1'') None)
     demo_train_args demo_world =
     (Inr (), demo_world_after_b,
      load_events_gpt2 @
      [MakeDirs ''/tmp/out/run1'' True,
       LogInfo ''Benchmarking task_a...'',
       FromTaskName ''task_a'' (demo_ctx None),
       SetSeed 42,
       Evaluate (DemoTask ''task_a'' None) (seeded 42),
       SaveMetrics (DemoTask ''task_a'' (Some 42)) ''/tmp/out/run1'' (Logger ''evaluation''),
       LogInfo ''Benchmarking task_b...'',
       FromTaskName ''task_b'' (demo_ctx None),
       SetSeed 42,
       Evaluate (DemoTask ''task_b'' None) (seeded 42),
       SaveMetrics (DemoTask ''task_b'' (Some 42)) ''/tmp/out/run1'' (Logger ''evaluation'')])"
  (is "?V \<and> ?L \<and> ?M \<and> ?S \<and> ?R")
proof -
  let ?A = "demo_eval_args [''task_a'', ''task_b''] (Some ''run1'') None"
  have v: ?V by (rule demo_validate_ok)
  have l: ?L by (rule demo_load_gpt2)
  have m: ?M by (rule demo_makedirs_run1)
  have c: "\<lparr>ctx_model = loaded_gpt2, ctx_tokenizer = loaded_gpt2_tokenizer,
            ctx_device = TorchDevice ''cpu'', ctx_english_only = english_only ?A,
            ctx_data_dir = data_dir ?A\<rparr> = demo_ctx None"
    by (simp add: demo_ctx_def demo_eval_args_sel)
  note inst = tasks_run_in_listed_order
    [of demo_env loaded_gpt2 loaded_gpt2_tokenizer "TorchDevice ''cpu''" ?A demo_train_args
        "''/tmp/out/run1''" "Logger ''evaluation''" "[''task_a'', ''task_b'']" demo_world_dir
        "run_tasks demo_env ?A demo_train_args loaded_gpt2 loaded_gpt2_tokenizer
           (TorchDevice ''cpu'') (Logger ''evaluation'') ''/tmp/out/run1''
           [''task_a'', ''task_b''] demo_world_dir"
        demo_world demo_world load_events_gpt2 demo_world_dir,
      unfolded c demo_seed demo_run_tasks_ab]
  from inst have s: ?S by blast
  have r: ?R
    using main_dispatch [OF v l, unfolded demo_output_dir_run1, OF m]
    by (simp only: demo_eval_args_sel demo_run_tasks_ab prod.case append.simps)
  from v l m s r show ?thesis by blast
qed




text \<open>
  C9. Let the run reach the loop, let the tasks before the task name \<open>t\<close> run without an
  exception, and let the registry, \<open>set_seed\<close>, \<open>evaluate\<close> or \<open>save_metrics\<close> raise \<open>e\<close> for
  \<open>t\<close>. Then \<open>main\<close> ends with that same \<open>e\<close>, in the world the raising call left. Its events
  are those of the loading, the creation of the directory, the tasks before \<open>t\<close> and an
  initial part of the block of \<open>t\<close>, so none of a later task; and the loop ends in the same
  way whatever task names follow \<open>t\<close> in the list.
\<close>

theorem task_exception_aborts_run:
  assumes "validate ea w = Inr ()"
      and "load_model env ea ta w = (Inr (m, tk, dev, lg), w1, tr0)"
      and "os_makedirs env (run_output_dir ea ta w1) True w1 = (Inr (), w2)"
      and "eval_tasks ea = pre @ t # post"
      and "run_tasks env ea ta m tk dev lg (run_output_dir ea ta w1) pre w2 = (Inr (), w3, tr1)"
      and "from_task_name env t (task_context ea m tk dev) w3 = (Inl e, w4) \<or>
           (\<exists>a wa. from_task_name env t (task_context ea m tk dev) w3 = (Inr a, wa) \<and>
              (set_seed (seed ta) wa = (Inl e, w4) \<or>
               (\<exists>wb. set_seed (seed ta) wa = (Inr (), wb) \<and>
                  (evaluate env a wb = (Inl e, w4) \<or>
                   (\<exists>b wc. evaluate env a wb = (Inr b, wc) \<and>
                      save_metrics env b (run_output_dir ea ta w1) lg wc = (Inl e, w4))))))"
  shows "\<exists>tr2 ab zs.
           main env ea ta w =
             (Inl e, w4, tr0 @ [MakeDirs (run_output_dir ea ta w1) True] @ tr1 @ tr2) \<and>
           tr2 @ zs =
             task_steps (task_context ea m tk dev) (seed ta) (run_output_dir ea ta w1) lg t ab \<and>
           (\<forall>post'. run_tasks env ea ta m tk dev lg (run_output_dir ea ta w1)
                       (pre @ t # post') w2 = (Inl e, w4, tr1 @ tr2))"
proof -
  from run_task_raises [OF assms(6)] obtain tr2 ab zs where
    t: "run_task env ea ta m tk dev lg (run_output_dir ea ta w1) t w3 = (Inl e, w4, tr2)"
    and z: "tr2 @ zs =
      task_steps (task_context ea m tk dev) (seed ta) (run_output_dir ea ta w1) lg t ab"
    by blast
  have stop: "run_tasks env ea ta m tk dev lg (run_output_dir ea ta w1) (pre @ t # post') w2 =
                (Inl e, w4, tr1 @ tr2)" for post'
    by (rule run_tasks_stop [OF assms(5) t])
  from main_dispatch [OF assms(1,2,3)] assms(4) stop [of post]
  have "main env ea ta w =
      (Inl e, w4, tr0 @ [MakeDirs (run_output_dir ea ta w1) True] @ tr1 @ tr2)"
    by simp
  with z stop show ?thesis by blast
qed

theorem task_exception_aborts_run_witness:
  "validate (demo_eval_args [''task_a'', ''task_bad'', ''task_b''] (Some ''run1'') None)
     demo_world = Inr () \<and>
   load_model demo_env (demo_eval_args [''task_a'', ''task_bad'', ''task_b''] (Some ''run1'') None)
     demo_train_args demo_world =
     (Inr (loaded_gpt2, loaded_gpt2_tokenizer, TorchDevice ''cpu'', Logger ''evaluation''),
      demo_world, load_events_gpt2) \<and>
   os_makedirs demo_env ''/tmp/out/run1'' True demo_world = (Inr (), demo_world_dir) \<and>
   eval_tasks (demo_eval_args [''task_a'', ''task_bad'', ''task_b''] (Some ''run1'') None) =
     [''task_a''] @ ''task_bad'' # [''task_b''] \<and>
   run_tasks demo_env (demo_eval_args [''task_a'', ''task_bad'', ''task_b''] (Some ''run1'') None)
     demo_train_args loaded_gpt2 loaded_gpt2_tokenizer (TorchDevice ''cpu'')
     (Logger ''evaluation'') ''/tmp/out/run1'' [''task_a''] demo_world_dir =
     (Inr (), demo_world_after_a,
      [LogInfo ''Benchmarking task_a...'',
       FromTaskName ''task_a'' (demo_ctx None),
       SetSeed 42,
       Evaluate (DemoTask ''task_a'' None) (seeded 42),
       SaveMetrics (DemoTask ''task_a'' (Some 42)) ''/tmp/out/run1'' (Logger ''evaluation'')]) \<and>
   from_task_name demo_env ''task_bad'' (demo_ctx None) demo_world_after_a =
     (Inr (DemoTask ''task_bad'' None), demo_world_after_a) \<and>
   set_seed 42 demo_world_after_a = (Inr (), demo_world_after_a\<lparr>rng := seeded 42\<rparr>) \<and>
   evaluate demo_env (DemoTask ''task_bad'' None) (demo_world_after_a\<lparr>rng := seeded 42\<rparr>) =
     (Inl (ExternalError ''RuntimeError''), demo_world_after_a\<lparr>rng := seeded 42\<rparr>) \<and>
   main demo_env (demo_eval_args [''task_a'', ''task_bad'', ''task_b''] (Some ''run1'') None)
     demo_train_args demo_world =
     (Inl (ExternalError ''RuntimeError''), demo_world_after_a\<lparr>rng := seeded 42\<rparr>,
      load_events_gpt2 @
      [MakeDirs ''/tmp/out/run1'' True,
       LogInfo ''Benchmarking task_a...'',
       FromTaskName ''task_a'' (demo_ctx None),
       SetSeed 42,
       Evaluate (DemoTask ''task_a'' None) (seeded 42),
       SaveMetrics (DemoTask ''task_a'' (Some 42)) ''/tmp/out/run1'' (Logger ''evaluation''),
       LogInfo ''Benchmarking task_bad...'',
       FromTaskName ''task_bad'' (demo_ctx None),
       SetSeed 42,
       Evaluate (DemoTask ''task_bad'' None) (seeded 42)])"
  (is "?V \<and> ?L \<and> ?M \<and> ?E \<and> ?P \<and> ?R \<and> ?S \<and> ?X \<and> ?C")
proof -
  let ?A = "demo_eval_args [''task_a'', ''task_bad'', ''task_b''] (Some ''run1'') None"
  have v: ?V by (rule demo_validate3)
  have l: ?L by (rule demo_load_gpt2)
  have m: ?M by (rule demo_makedirs_run1)
  have e: ?E by (simp add: demo_eval_args_sel)
  have p: ?P by (simp add: demo_run_task_a)
  have r: ?R by (simp add: demo_env_def demo_from_task_name_def)
  have s: ?S by (rule demo_set_seed)
  have x: ?X by (simp add: demo_env_def)
  have o: "run_output_dir ?A demo_train_args demo_world = ''/tmp/out/run1''"
    by (rule demo_output_dir_run1)
  have c: "demo_ctx None = task_context ?A loaded_gpt2 loaded_gpt2_tokenizer (TorchDevice ''cpu'')"
    by (simp add: demo_task_context)
  have sd: "seed demo_train_args = 42" by (rule demo_seed)
  have h: "from_task_name demo_env ''task_bad''
             (task_context ?A loaded_gpt2 loaded_gpt2_tokenizer (TorchDevice ''cpu''))
             demo_world_after_a =
             (Inl (ExternalError ''RuntimeError''), demo_world_after_a\<lparr>rng := seeded 42\<rparr>) \<or>
           (\<exists>a wa. from_task_name demo_env ''task_bad''
               (task_context ?A loaded_gpt2 loaded_gpt2_tokenizer (TorchDevice ''cpu''))
               demo_world_after_a = (Inr a, wa) \<and>
              (set_seed (seed demo_train_args) wa =
                 (Inl (ExternalError ''RuntimeError''), demo_world_after_a\<lparr>rng := seeded 42\<rparr>) \<or>
               (\<exists>wb. set_seed (seed demo_train_args) wa = (Inr (), wb) \<and>
                  (evaluate demo_env a wb =
                     (Inl (ExternalError ''RuntimeError''),
                      demo_world_after_a\<lparr>rng := seeded 42\<rparr>) \<or>
                   (\<exists>b wc. evaluate demo_env a wb = (Inr b, wc) \<and>
                      save_metrics demo_env b (run_output_dir ?A demo_train_args demo_world)
                        (Logger ''evaluation'') wc =
                        (Inl (ExternalError ''RuntimeError''),
                         demo_world_after_a\<lparr>rng := seeded 42\<rparr>))))))"
    using r s x unfolding c [symmetric] sd by blast
  have c': ?C
    using main_dispatch [OF v l, unfolded demo_output_dir_run1, OF m]
    by (simp add: demo_eval_args_sel demo_run_task_a demo_run_task_bad demo_task_context)
  from task_exception_aborts_run [OF v l m [folded o] e p [folded o] h] v l m e p r s x c'
  show ?thesis by blast
qed

section \<open>Claims on the loading\<close>

text \<open>
  C6. Whatever the model identifier is, when the loading succeeds the tokenizer it gives is
  the one the hub returned with \<open>pad_token\<close> set to its \<open>eos_token\<close> and \<open>padding_side\<close> set
  to \<open>left\<close>, and this is the tokenizer every task is constructed from.
\<close>

theorem tokenizer_pad_is_eos_and_left:
  assumes "load_model env ea ta w = (Inr (m, tk, dev, lg), w', tr)"
  shows "pad_token tk = eos_token tk \<and> padding_side tk = ''left'' \<and>
         (\<exists>tk0 w0.
            tokenizer_from_pretrained env (py_or (tokenizer_name ea) (model_name_or_path ea)) w =
              (Inr tk0, w0) \<and>
            tk = tk0\<lparr>pad_token := eos_token tk0, padding_side := ''left''\<rparr>) \<and>
         (\<forall>n c. FromTaskName n c \<in> set (snd (snd (main env ea ta w))) \<longrightarrow>
            ctx_tokenizer c = tk)"
proof -
  from load_model_cases [of env ea w ta] assms obtain tk0 w0 where
    t: "tokenizer_from_pretrained env (py_or (tokenizer_name ea) (model_name_or_path ea)) w =
          (Inr tk0, w0)"
       "tk = tk0\<lparr>pad_token := eos_token tk0, padding_side := ''left''\<rparr>"
    by auto
  have "ctx_tokenizer c = tk"
    if "FromTaskName n c \<in> set (snd (snd (main env ea ta w)))" for n c
    using main_from [OF that] assms by (auto simp: task_context_def)
  with t show ?thesis by auto
qed

theorem tokenizer_pad_is_eos_and_left_witness:
  "load_model demo_env (demo_eval_args [''task_a'', ''task_b''] (Some ''run1'') None)
     demo_train_args demo_world =
     (Inr (loaded_gpt2, loaded_gpt2_tokenizer, TorchDevice ''cpu'', Logger ''evaluation''),
      demo_world, load_events_gpt2) \<and>
   pad_token gpt2_tokenizer = None \<and> padding_side gpt2_tokenizer = ''right'' \<and>
   pad_token loaded_gpt2_tokenizer = eos_token loaded_gpt2_tokenizer \<and>
   padding_side loaded_gpt2_tokenizer = ''left'' \<and>
   FromTaskName ''task_a'' (demo_ctx None) \<in>
     set (snd (snd (main demo_env (demo_eval_args [''task_a'', ''task_b''] (Some ''run1'') None)
       demo_train_args demo_world))) \<and>
   ctx_tokenizer (demo_ctx None) = loaded_gpt2_tokenizer"
  (is "?L \<and> ?G \<and> ?H \<and> ?P \<and> ?S \<and> ?F \<and> ?C")
proof -
  have l: ?L by (rule demo_load_gpt2)
  have g: ?G ?H by (simp_all add: gpt2_tokenizer_def)
  have f: ?F by (simp add: demo_run1_trace)
  have c: ?C by (simp add: demo_ctx_def)
  from tokenizer_pad_is_eos_and_left [OF l] l g f c show ?thesis by blast
qed

text \<open>
  C7. Once the tokenizer is loaded, the loading is the loading with one model class: the
  hub is asked for the model with the sequence-to-sequence class when \<open>model_name_or_path\<close>
  is \<open>bigscience/T0_3B\<close> or \<open>bigscience/T0\<close> and with the causal class for every other
  identifier, and what the hub answers to that call, a model or an exception, is what the
  loading goes on with. No run asks the hub for a model in another way.
\<close>

theorem model_type_by_allowlist:
  assumes "tokenizer_from_pretrained env (py_or (tokenizer_name ea) (model_name_or_path ea)) w =
             (Inr tk0, w1)"
  shows "(model_name_or_path ea = ''bigscience/T0_3B'' \<or>
          model_name_or_path ea = ''bigscience/T0'' \<longrightarrow>
            load_model env ea ta w =
              load_with_class env ea ta tk0 w1 AutoModelForSeq2SeqLM) \<and>
         (model_name_or_path ea \<noteq> ''bigscience/T0_3B'' \<and>
          model_name_or_path ea \<noteq> ''bigscience/T0'' \<longrightarrow>
            load_model env ea ta w =
              load_with_class env ea ta tk0 w1 AutoModelForCausalLM) \<and>
         (\<forall>mt n kw. ModelFromPretrained mt n kw \<in> set (snd (snd (main env ea ta w))) \<longrightarrow>
            n = model_name_or_path ea \<and>
            mt = (if n = ''bigscience/T0_3B'' \<or> n = ''bigscience/T0''
                  then AutoModelForSeq2SeqLM else AutoModelForCausalLM))"
proof (intro conjI impI allI)
  assume "model_name_or_path ea = ''bigscience/T0_3B'' \<or>
          model_name_or_path ea = ''bigscience/T0''"
  then have "MODEL_TYPE (model_name_or_path ea) = AutoModelForSeq2SeqLM"
    by (auto simp: MODEL_TYPE_def)
  with load_model_with_class [OF assms, of ta]
  show "load_model env ea ta w = load_with_class env ea ta tk0 w1 AutoModelForSeq2SeqLM"
    by simp
next
  assume "model_name_or_path ea \<noteq> ''bigscience/T0_3B'' \<and>
          model_name_or_path ea \<noteq> ''bigscience/T0''"
  then have "MODEL_TYPE (model_name_or_path ea) = AutoModelForCausalLM"
    by (simp add: MODEL_TYPE_def)
  with load_model_with_class [OF assms, of ta]
  show "load_model env ea ta w = load_with_class env ea ta tk0 w1 AutoModelForCausalLM"
    by simp
next
  fix mt n kw
  assume "ModelFromPretrained mt n kw \<in> set (snd (snd (main env ea ta w)))"
  from main_loads [OF this]
  show "n = model_name_or_path ea"
    "mt = (if n = ''bigscience/T0_3B'' \<or> n = ''bigscience/T0''
           then AutoModelForSeq2SeqLM else AutoModelForCausalLM)"
    by (simp_all add: MODEL_TYPE_def)
qed

theorem model_type_by_allowlist_witness:
  "tokenizer_from_pretrained demo_env
     (py_or (tokenizer_name t0_eval_args) (model_name_or_path t0_eval_args)) demo_world =
     (Inr t0_tokenizer, demo_world) \<and>
   model_name_or_path t0_eval_args = ''bigscience/T0'' \<and>
   load_model demo_env t0_eval_args demo_train_args demo_world =
     load_with_class demo_env t0_eval_args demo_train_args t0_tokenizer demo_world
       AutoModelForSeq2SeqLM \<and>
   fst (load_with_class demo_env t0_eval_args demo_train_args t0_tokenizer demo_world
          AutoModelForSeq2SeqLM) =
     Inr (loaded_t0, loaded_t0_tokenizer, TorchDevice ''cpu'', Logger ''evaluation'') \<and>
   fst (load_with_class demo_env t0_eval_args demo_train_args t0_tokenizer demo_world
          AutoModelForCausalLM) = Inl (ExternalError ''OSError'') \<and>
   tokenizer_from_pretrained demo_env
     (py_or (tokenizer_name mixed_eval_args) (model_name_or_path mixed_eval_args)) demo_world =
     (Inr t0_tokenizer, demo_world) \<and>
   model_name_or_path mixed_eval_args = ''gpt2'' \<and>
   load_model demo_env mixed_eval_args demo_train_args demo_world =
     load_with_class demo_env mixed_eval_args demo_train_args t0_tokenizer demo_world
       AutoModelForCausalLM \<and>
   fst (load_with_class demo_env mixed_eval_args demo_train_args t0_tokenizer demo_world
          AutoModelForCausalLM) =
     Inr (loaded_mixed_model, loaded_t0_tokenizer, TorchDevice ''cpu'', Logger ''evaluation'') \<and>
   fst (load_with_class demo_env mixed_eval_args demo_train_args t0_tokenizer demo_world
          AutoModelForSeq2SeqLM) = Inl (ExternalError ''OSError'')"
  (is "?T \<and> ?N \<and> ?L \<and> ?R \<and> ?W \<and> ?U \<and> ?O \<and> ?M \<and> ?S \<and> ?X")
proof -
  have t: ?T
    by (simp add: t0_eval_args_def py_or_def demo_env_def demo_tokenizer_from_pretrained_def)
  have n: ?N by (simp add: t0_eval_args_def)
  have u: ?U
    by (simp add: mixed_eval_args_def py_or_def demo_env_def demo_tokenizer_from_pretrained_def)
  have o: ?O by (simp add: mixed_eval_args_def)
  from model_type_by_allowlist [OF t, of demo_train_args] n have l: ?L by simp
  from model_type_by_allowlist [OF u, of demo_train_args] o have m: ?M by simp
  from l [symmetric] demo_load_t0 have r: ?R by simp
  from m [symmetric] demo_load_mixed have s: ?S by simp
  have w: ?W
    by (simp add: load_with_class_def demo_env_def demo_model_from_pretrained_def
        t0_eval_args_def)
  have x: ?X
    by (simp add: load_with_class_def demo_env_def demo_model_from_pretrained_def
        mixed_eval_args_def)
  from t n l r w u o m s x show ?thesis by blast
qed

text \<open>
  C8, as stated, fails. With the model \<open>gpt2\<close> and the tokenizer of \<open>bigscience/T0\<close>
  (\<open>tokenizer_name\<close> is there for a tokenizer that is not the model's), the checks pass and the
  loading succeeds; the pad token of the tokenizer is \<open></s>\<close>, whose id is 1, and the
  \<open>pad_token_id\<close> of the model's configuration is 50256, the \<open>eos_token_id\<close> of that
  configuration: line 74 assigns the model's own \<open>eos_token_id\<close>, over what line 72 passed.
\<close>

theorem model_pad_token_counterexample:
  "validate mixed_eval_args demo_world = Inr () \<and>
   fst (load_model demo_env mixed_eval_args demo_train_args demo_world) =
     Inr (loaded_mixed_model, loaded_t0_tokenizer, TorchDevice ''cpu'', Logger ''evaluation'') \<and>
   pad_token loaded_t0_tokenizer = Some ''</s>'' \<and>
   tokenizer_pad_token_id loaded_t0_tokenizer = PyInt 1 \<and>
   pad_token_id (config loaded_mixed_model) = PyInt 50256 \<and>
   pad_token_id (config loaded_mixed_model) \<noteq> tokenizer_pad_token_id loaded_t0_tokenizer \<and>
   pad_token_id (config loaded_mixed_model) \<noteq> PyStr ''</s>''"
proof -
  have "validate mixed_eval_args demo_world = Inr ()"
    by (simp add: validate_def mixed_eval_args_def)
  moreover have "fst (load_model demo_env mixed_eval_args demo_train_args demo_world) =
      Inr (loaded_mixed_model, loaded_t0_tokenizer, TorchDevice ''cpu'', Logger ''evaluation'')"
    by (simp add: demo_load_mixed)
  moreover have "pad_token loaded_t0_tokenizer = Some ''</s>''"
    "tokenizer_pad_token_id loaded_t0_tokenizer = PyInt 1"
    by (simp_all add: loaded_t0_tokenizer_def tokenizer_pad_token_id_def)
  moreover have "pad_token_id (config loaded_mixed_model) = PyInt 50256"
    by (simp add: loaded_mixed_model_def)
  ultimately show ?thesis by simp
qed

text \<open>
  C8, amended. When the loading succeeds, the \<open>pad_token_id\<close> of the model's configuration is
  the \<open>eos_token_id\<close> of that same configuration, as the hub returned it; so it is the id of
  the tokenizer's pad token exactly when that \<open>eos_token_id\<close> is. The number of input
  embeddings is \<open>len(tokenizer)\<close>. This is the model every task is constructed from.
\<close>

theorem model_pad_is_model_eos:
  assumes "load_model env ea ta w = (Inr (m, tk, dev, lg), w', tr)"
  shows "pad_token_id (config m) = eos_token_id (config m) \<and>
         (\<exists>m0 w1.
            model_from_pretrained env (MODEL_TYPE (model_name_or_path ea))
              (model_name_or_path ea) (eos_token tk) w1 = (Inr m0, w') \<and>
            eos_token_id (config m) = eos_token_id (config m0)) \<and>
         (pad_token_id (config m) = tokenizer_pad_token_id tk) =
           (eos_token_id (config m) = tokenizer_pad_token_id tk) \<and>
         num_embeddings m = tokenizer_len tk \<and>
         (\<forall>n c. FromTaskName n c \<in> set (snd (snd (main env ea ta w))) \<longrightarrow> ctx_model c = m)"
proof -
  from load_model_cases [of env ea w ta] assms obtain tk0 w1 m0 where
    h: "model_from_pretrained env (MODEL_TYPE (model_name_or_path ea)) (model_name_or_path ea)
          (eos_token tk0) w1 = (Inr m0, w')"
       "m = \<lparr>config = (config m0)\<lparr>pad_token_id := eos_token_id (config m0)\<rparr>,
              num_embeddings = tokenizer_len tk0,
              model_device = Some (TorchDevice (device ta))\<rparr>"
       "tk = tk0\<lparr>pad_token := eos_token tk0, padding_side := ''left''\<rparr>"
    by auto
  from h(1,3) have
    "model_from_pretrained env (MODEL_TYPE (model_name_or_path ea)) (model_name_or_path ea)
       (eos_token tk) w1 = (Inr m0, w')"
    by simp
  moreover from h(2) have "eos_token_id (config m) = eos_token_id (config m0)"
    "pad_token_id (config m) = eos_token_id (config m)" by simp_all
  moreover from h(2,3) have "num_embeddings m = tokenizer_len tk" by simp
  moreover have "ctx_model c = m"
    if "FromTaskName n c \<in> set (snd (snd (main env ea ta w)))" for n c
    using main_from [OF that] assms by (auto simp: task_context_def)
  ultimately show ?thesis by auto
qed

theorem model_pad_is_model_eos_witness:
  "load_model demo_env mixed_eval_args demo_train_args demo_world =
     (Inr (loaded_mixed_model, loaded_t0_tokenizer, TorchDevice ''cpu'', Logger ''evaluation''),
      demo_world,
      [LogInfo ''Beginning evaluation on device cpu'', LogInfo ''Loading model...'',
       TokenizerFromPretrained ''bigscience/T0'',
       ModelFromPretrained AutoModelForCausalLM ''gpt2'' (Some ''</s>'')]) \<and>
   pad_token_id (config loaded_mixed_model) = eos_token_id (config loaded_mixed_model) \<and>
   eos_token_id (config loaded_mixed_model) = PyInt 50256 \<and>
   num_embeddings loaded_mixed_model = tokenizer_len loaded_t0_tokenizer \<and>
   tokenizer_len loaded_t0_tokenizer = 32100"
  (is "?L \<and> ?P \<and> ?E \<and> ?N \<and> ?T")
proof -
  have l: ?L by (rule demo_load_mixed)
  have e: ?E by (simp add: loaded_mixed_model_def)
  have t: ?T by (simp add: loaded_t0_tokenizer_def)
  from model_pad_is_model_eos [OF l] l e t show ?thesis by blast
qed

section \<open>Claims on the output directory\<close>

text \<open>
  C5, as stated, fails. A tag that is supplied but empty is not used: line 79 takes the
  timestamp for it, and the directory asked for is \<open>/tmp/out/240305_140709\<close>, not
  \<open>/tmp/out/\<close>. A tag that begins with \<open>/\<close> is used, but \<open>os.path.join\<close> then drops
  \<open>output_dir\<close>: the directory asked for is \<open>/abs\<close>, not \<open>/tmp/out//abs\<close>. And where the path
  is a regular file, \<open>os.makedirs\<close> raises although \<open>exist_ok\<close> is set: the run ends at line
  81 with \<open>FileExistsError\<close>, no directory is created and no task runs.
\<close>

theorem output_dir_counterexample:
  "tag (demo_eval_args [''task_a''] (Some []) None) = Some [] \<and>
   output_dir demo_train_args = ''/tmp/out'' \<and>
   filter is_makedirs
     (snd (snd (main demo_env (demo_eval_args [''task_a''] (Some []) None) demo_train_args
        demo_world))) = [MakeDirs ''/tmp/out/240305_140709'' True] \<and>
   ''/tmp/out/240305_140709'' \<noteq> ''/tmp/out'' @ ''/'' @ [] \<and>
   tag (demo_eval_args [''task_a''] (Some ''/abs'') None) = Some ''/abs'' \<and>
   filter is_makedirs
     (snd (snd (main demo_env (demo_eval_args [''task_a''] (Some ''/abs'') None) demo_train_args
        demo_world))) = [MakeDirs ''/abs'' True] \<and>
   ''/abs'' \<noteq> ''/tmp/out'' @ ''/'' @ ''/abs'' \<and>
   fs demo_world_file ''/tmp/out/run1'' = Some File \<and>
   main demo_env (demo_eval_args [''task_a''] (Some ''run1'') None) demo_train_args
     demo_world_file =
     (Inl (FileExistsError ''/tmp/out/run1''), demo_world_file,
      load_events_gpt2 @ [MakeDirs ''/tmp/out/run1'' True])"
proof -
  have "filter is_makedirs
     (snd (snd (main demo_env (demo_eval_args [''task_a''] (Some []) None) demo_train_args
        demo_world))) = [MakeDirs ''/tmp/out/240305_140709'' True]"
    using main_makedirs [OF demo_validate1 demo_load_gpt2]
    by (simp add: demo_output_dir_empty_tag)
  moreover have "filter is_makedirs
     (snd (snd (main demo_env (demo_eval_args [''task_a''] (Some ''/abs'') None) demo_train_args
        demo_world))) = [MakeDirs ''/abs'' True]"
    using main_makedirs [OF demo_validate1 demo_load_gpt2]
    by (simp add: demo_output_dir_abs_tag)
  moreover have "fs demo_world_file ''/tmp/out/run1'' = Some File"
    by (simp add: demo_world_file_def)
  moreover have "main demo_env (demo_eval_args [''task_a''] (Some ''run1'') None)
     demo_train_args demo_world_file =
     (Inl (FileExistsError ''/tmp/out/run1''), demo_world_file,
      load_events_gpt2 @ [MakeDirs ''/tmp/out/run1'' True])"
    using main_makedirs_raises
      [OF demo_validate1 [of "Some ''run1''" None demo_world_file]
          demo_load_gpt2_any [of "[''task_a'']" "Some ''run1''" None demo_world_file],
        unfolded demo_output_dir_run1, OF demo_makedirs_file]
    by simp
  ultimately show ?thesis
    by (simp add: demo_eval_args_sel demo_train_args_def)
qed

text \<open>
  C5, amended. In every run that gets past the loading, \<open>os.makedirs\<close> is called exactly
  once, with \<open>exist_ok=True\<close> and before any call of the loop, and its path is
  \<open>os.path.join(output_dir, tag)\<close>, where the tag is the supplied tag if that is a non-empty
  string and otherwise the timestamp \<open>%y%m%d_%H%M%S\<close> of the clock: thirteen characters that
  do not depend on the microseconds and that differ when the seconds do. The path is
  \<open>output_dir\<close>, \<open>/\<close> and the tag whenever \<open>output_dir\<close> is not empty and does not end with
  \<open>/\<close> and the tag does not begin with \<open>/\<close>. When the call returns, the tasks run in the
  world it left, where (as \<open>os.makedirs\<close> promises) the path is a directory; when it raises,
  as it does for a regular file at the path, the run ends with its exception and no task
  runs. When the path is a directory already, the call does not raise and changes nothing,
  and the run goes on to the tasks: creating the directory a second time is no error.
\<close>

theorem output_dir_is_joined_path:
  assumes "validate ea w = Inr ()"
      and "load_model env ea ta w = (Inr (m, tk, dev, lg), w1, tr0)"
  shows "filter is_makedirs (snd (snd (main env ea ta w))) =
           [MakeDirs (path_join (output_dir ta) (run_tag ea w1)) True] \<and>
         (\<exists>ys. snd (snd (main env ea ta w)) =
            tr0 @ MakeDirs (path_join (output_dir ta) (run_tag ea w1)) True # ys) \<and>
         filter is_task_event tr0 = [] \<and>
         run_tag ea w1 =
           (case tag ea of
              None \<Rightarrow> strftime_tag (clock w1)
            | Some s \<Rightarrow> if s = [] then strftime_tag (clock w1) else s) \<and>
         length (strftime_tag (clock w1)) = 13 \<and>
         strftime_tag ((clock w1)\<lparr>microsecond := us\<rparr>) = strftime_tag (clock w1) \<and>
         (second c < 60 \<and> second c' < 60 \<and> strftime_tag c = strftime_tag c' \<longrightarrow>
            second c = second c') \<and>
         (output_dir ta \<noteq> [] \<and> last (output_dir ta) \<noteq> CHR ''/'' \<and>
          hd (run_tag ea w1) \<noteq> CHR ''/'' \<longrightarrow>
            path_join (output_dir ta) (run_tag ea w1) = output_dir ta @ ''/'' @ run_tag ea w1) \<and>
         (\<forall>w2. os_makedirs env (path_join (output_dir ta) (run_tag ea w1)) True w1 =
                 (Inr (), w2) \<longrightarrow>
            main env ea ta w =
              (case run_tasks env ea ta m tk dev lg (path_join (output_dir ta) (run_tag ea w1))
                      (eval_tasks ea) w2 of
                 (r, w3, tr3) \<Rightarrow>
                   (r, w3,
                    tr0 @ [MakeDirs (path_join (output_dir ta) (run_tag ea w1)) True] @ tr3)) \<and>
            (makedirs_contract env \<longrightarrow>
               fs w2 (path_join (output_dir ta) (run_tag ea w1)) = Some Dir)) \<and>
         (\<forall>e w2. os_makedirs env (path_join (output_dir ta) (run_tag ea w1)) True w1 =
                   (Inl e, w2) \<longrightarrow>
            main env ea ta w =
              (Inl e, w2, tr0 @ [MakeDirs (path_join (output_dir ta) (run_tag ea w1)) True])) \<and>
         (makedirs_contract env \<and>
          fs w1 (path_join (output_dir ta) (run_tag ea w1)) = Some Dir \<longrightarrow>
            main env ea ta w =
              (case run_tasks env ea ta m tk dev lg (path_join (output_dir ta) (run_tag ea w1))
                      (eval_tasks ea) w1 of
                 (r, w3, tr3) \<Rightarrow>
                   (r, w3,
                    tr0 @ [MakeDirs (path_join (output_dir ta) (run_tag ea w1)) True] @ tr3)))"
proof -
  let ?P = "path_join (output_dir ta) (run_tag ea w1)"
  have P: "run_output_dir ea ta w1 = ?P" by (simp add: run_output_dir_def)
  from main_makedirs [OF assms] have
    "filter is_makedirs (snd (snd (main env ea ta w))) = [MakeDirs ?P True]"
    "\<exists>ys. snd (snd (main env ea ta w)) = tr0 @ MakeDirs ?P True # ys"
    "filter is_task_event tr0 = []"
    by (simp_all add: run_output_dir_def)
  moreover have "run_tag ea w1 =
           (case tag ea of
              None \<Rightarrow> strftime_tag (clock w1)
            | Some s \<Rightarrow> if s = [] then strftime_tag (clock w1) else s)"
    by (simp add: run_tag_def py_or_def)
  moreover have "length (strftime_tag (clock w1)) = 13"
    by (simp add: strftime_tag_def two_digits_def)
  moreover have "strftime_tag ((clock w1)\<lparr>microsecond := us\<rparr>) = strftime_tag (clock w1)"
    by (simp add: strftime_tag_def)
  moreover have "second c < 60 \<and> second c' < 60 \<and> strftime_tag c = strftime_tag c' \<longrightarrow>
            second c = second c'"
    using strftime_tag_second by blast
  moreover have "output_dir ta \<noteq> [] \<and> last (output_dir ta) \<noteq> CHR ''/'' \<and>
          hd (run_tag ea w1) \<noteq> CHR ''/'' \<longrightarrow> ?P = output_dir ta @ ''/'' @ run_tag ea w1"
    using path_join_plain by blast
  moreover have "\<forall>w2. os_makedirs env ?P True w1 = (Inr (), w2) \<longrightarrow>
            main env ea ta w =
              (case run_tasks env ea ta m tk dev lg ?P (eval_tasks ea) w2 of
                 (r, w3, tr3) \<Rightarrow> (r, w3, tr0 @ [MakeDirs ?P True] @ tr3)) \<and>
            (makedirs_contract env \<longrightarrow> fs w2 ?P = Some Dir)"
  proof (intro allI impI conjI)
    fix w2
    assume mk: "os_makedirs env ?P True w1 = (Inr (), w2)"
    from main_dispatch [OF assms, unfolded P, OF mk]
    show "main env ea ta w =
              (case run_tasks env ea ta m tk dev lg ?P (eval_tasks ea) w2 of
                 (r, w3, tr3) \<Rightarrow> (r, w3, tr0 @ [MakeDirs ?P True] @ tr3))" .
    assume "makedirs_contract env"
    with mk show "fs w2 ?P = Some Dir"
      unfolding makedirs_contract_def by blast
  qed
  moreover have "\<forall>e w2. os_makedirs env ?P True w1 = (Inl e, w2) \<longrightarrow>
            main env ea ta w = (Inl e, w2, tr0 @ [MakeDirs ?P True])"
    using main_makedirs_raises [OF assms, unfolded P] by blast
  moreover have "makedirs_contract env \<and> fs w1 ?P = Some Dir \<longrightarrow>
            main env ea ta w =
              (case run_tasks env ea ta m tk dev lg ?P (eval_tasks ea) w1 of
                 (r, w3, tr3) \<Rightarrow> (r, w3, tr0 @ [MakeDirs ?P True] @ tr3))"
  proof
    assume "makedirs_contract env \<and> fs w1 ?P = Some Dir"
    then have mk: "os_makedirs env ?P True w1 = (Inr (), w1)"
      unfolding makedirs_contract_def by blast
    from main_dispatch [OF assms, unfolded P, OF mk]
    show "main env ea ta w =
              (case run_tasks env ea ta m tk dev lg ?P (eval_tasks ea) w1 of
                 (r, w3, tr3) \<Rightarrow> (r, w3, tr0 @ [MakeDirs ?P True] @ tr3))" .
  qed
  ultimately show ?thesis by (intro conjI)
qed

theorem output_dir_is_joined_path_witness:
  "validate (demo_eval_args [''task_a'', ''task_b''] (Some ''run1'') None) demo_world = Inr () \<and>
   load_model demo_env (demo_eval_args [''task_a'', ''task_b''] (Some ''run1'') None)
     demo_train_args demo_world =
     (Inr (loaded_gpt2, loaded_gpt2_tokenizer, TorchDevice ''cpu'', Logger ''evaluation''),
      demo_world, load_events_gpt2) \<and>
   run_tag (demo_eval_args [''task_a'', ''task_b''] (Some ''run1'') None) demo_world = ''run1'' \<and>
   output_dir demo_train_args = ''/tmp/out'' \<and>
   path_join ''/tmp/out'' ''run1'' = ''/tmp/out/run1'' \<and>
   makedirs_contract demo_env \<and>
   filter is_makedirs
     (snd (snd (main demo_env (demo_eval_args [''task_a'', ''task_b''] (Some ''run1'') None)
        demo_train_args demo_world))) = [MakeDirs ''/tmp/out/run1'' True] \<and>
   fs demo_world ''/tmp/out/run1'' = None \<and>
   os_makedirs demo_env ''/tmp/out/run1'' True demo_world = (Inr (), demo_world_dir) \<and>
   fs demo_world_dir ''/tmp/out/run1'' = Some Dir \<and>
   validate (demo_eval_args [''task_a'', ''task_b''] (Some ''run1'') None) demo_world_dir =
     Inr () \<and>
   load_model demo_env (demo_eval_args [''task_a'', ''task_b''] (Some ''run1'') None)
     demo_train_args demo_world_dir =
     (Inr (loaded_gpt2, loaded_gpt2_tokenizer, TorchDevice ''cpu'', Logger ''evaluation''),
      demo_world_dir, load_events_gpt2) \<and>
   run_tag (demo_eval_args [''task_a'', ''task_b''] (Some ''run1'') None) demo_world_dir =
     ''run1'' \<and>
   main demo_env (demo_eval_args [''task_a'', ''task_b''] (Some ''run1'') None)
     demo_train_args demo_world_dir =
     (Inr (), demo_world_after_b,
      load_events_gpt2 @
      [MakeDirs ''/tmp/out/run1'' True,
       LogInfo ''Benchmarking task_a...'',
       FromTaskName ''task_a'' (demo_ctx None),
       SetSeed 42,
       Evaluate (DemoTask ''task_a'' None) (seeded 42),
       SaveMetrics (DemoTask ''task_a'' (Some 42)) ''/tmp/out/run1'' (Logger ''evaluation''),
       LogInfo ''Benchmarking task_b...'',
       FromTaskName ''task_b'' (demo_ctx None),
       SetSeed 42,
       Evaluate (DemoTask ''task_b'' None) (seeded 42),
       SaveMetrics (DemoTask ''task_b'' (Some 42)) ''/tmp/out/run1'' (Logger ''evaluation'')])"
  (is "?V \<and> ?L \<and> ?T \<and> ?O \<and> ?J \<and> ?K \<and> ?F \<and> ?N \<and> ?M \<and> ?D \<and> ?V2 \<and> ?L2 \<and> ?T2 \<and> ?R")
proof -
  let ?A = "demo_eval_args [''task_a'', ''task_b''] (Some ''run1'') None"
  have v: ?V and v2: ?V2 by (rule demo_validate_ok)+
  have l: ?L and l2: ?L2 by (rule demo_load_gpt2_any)+
  have t: ?T and t2: ?T2 by (simp_all add: run_tag_def py_or_def demo_eval_args_sel)
  have o: ?O by (simp add: demo_train_args_def)
  have j: ?J by (simp add: path_join_def)
  have k: ?K by (rule demo_makedirs_contract)
  have n: ?N by (simp add: demo_world_def)
  have m: ?M by (rule demo_makedirs_run1)
  note first = output_dir_is_joined_path [OF v l, unfolded t o j]
  note again = output_dir_is_joined_path [OF v2 l2, unfolded t2 o j]
  from first have f: ?F by blast
  from first m k have d: ?D by blast
  from again k d have
    "main demo_env ?A demo_train_args demo_world_dir =
       (case run_tasks demo_env ?A demo_train_args loaded_gpt2 loaded_gpt2_tokenizer
               (TorchDevice ''cpu'') (Logger ''evaluation'') ''/tmp/out/run1''
               (eval_tasks ?A) demo_world_dir of
          (r, w3, tr3) \<Rightarrow>
            (r, w3, load_events_gpt2 @ [MakeDirs ''/tmp/out/run1'' True] @ tr3))"
    by blast
  then have r: ?R
    by (simp only: demo_eval_args_sel demo_run_tasks_ab prod.case append.simps)
  from v l t o j k f n m d v2 l2 t2 r show ?thesis by blast
qed

end
